theory Spec2Isabelle
  imports Complex_Main
begin

section \<open>Floating-point values\<close>

text \<open>
  The fitters compute with numpy \<open>float64\<close> values. The control flow under study depends
  on the special values (\<open>-inf\<close>, \<open>inf\<close>, \<open>nan\<close>) and on comparisons, so a value is
  either a finite number or one of the three special values. Finite values are modelled
  by reals: rounding, overflow to infinity and the sign of zero are not represented.
  A quantity of the units library (\<open>astropy.units\<close>) is held by its value in the unit
  the source names. Where the outcome of an operation depends on whether an operand
  carries a unit (a comparison, a sum or a difference of a quantity and a plain number,
  the logarithm of a quantity), the model says which operand is a quantity and raises the
  exception of the library; see the section on quantities.
\<close>

datatype pyfloat = Fin real | PInf | NInf | NaN

fun isfinite :: "pyfloat \<Rightarrow> bool" where
  "isfinite (Fin x) = True"
| "isfinite PInf = False"
| "isfinite NInf = False"
| "isfinite NaN = False"

fun isnan :: "pyfloat \<Rightarrow> bool" where
  "isnan NaN = True"
| "isnan (Fin x) = False"
| "isnan PInf = False"
| "isnan NInf = False"

text \<open>Comparisons: every comparison with \<open>nan\<close> is false.\<close>

fun fle :: "pyfloat \<Rightarrow> pyfloat \<Rightarrow> bool" where
  "fle (Fin x) (Fin y) = (x \<le> y)"
| "fle (Fin x) PInf = True"
| "fle (Fin x) NInf = False"
| "fle PInf (Fin y) = False"
| "fle PInf PInf = True"
| "fle PInf NInf = False"
| "fle NInf (Fin y) = True"
| "fle NInf PInf = True"
| "fle NInf NInf = True"
| "fle NaN b = False"
| "fle (Fin x) NaN = False"
| "fle PInf NaN = False"
| "fle NInf NaN = False"

fun flt :: "pyfloat \<Rightarrow> pyfloat \<Rightarrow> bool" where
  "flt (Fin x) (Fin y) = (x < y)"
| "flt (Fin x) PInf = True"
| "flt (Fin x) NInf = False"
| "flt PInf (Fin y) = False"
| "flt PInf PInf = False"
| "flt PInf NInf = False"
| "flt NInf (Fin y) = True"
| "flt NInf PInf = True"
| "flt NInf NInf = False"
| "flt NaN b = False"
| "flt (Fin x) NaN = False"
| "flt PInf NaN = False"
| "flt NInf NaN = False"

definition fge :: "pyfloat \<Rightarrow> pyfloat \<Rightarrow> bool" where
  "fge a b = fle b a"

definition fgt :: "pyfloat \<Rightarrow> pyfloat \<Rightarrow> bool" where
  "fgt a b = flt b a"

definition feq :: "pyfloat \<Rightarrow> pyfloat \<Rightarrow> bool" where
  "feq a b = (a = b \<and> \<not> isnan a)"

text \<open>The chained comparison \<open>lo <= x <= hi\<close> of the prior checks.\<close>

definition in_bound :: "pyfloat \<Rightarrow> pyfloat \<Rightarrow> pyfloat \<Rightarrow> bool" where
  "in_bound lo x hi = (fle lo x \<and> fle x hi)"

text \<open>Arithmetic with the special values of IEEE 754.\<close>

fun fneg :: "pyfloat \<Rightarrow> pyfloat" where
  "fneg (Fin x) = Fin (- x)"
| "fneg PInf = NInf"
| "fneg NInf = PInf"
| "fneg NaN = NaN"

fun fadd :: "pyfloat \<Rightarrow> pyfloat \<Rightarrow> pyfloat" where
  "fadd (Fin x) (Fin y) = Fin (x + y)"
| "fadd (Fin x) PInf = PInf"
| "fadd (Fin x) NInf = NInf"
| "fadd PInf (Fin y) = PInf"
| "fadd PInf PInf = PInf"
| "fadd PInf NInf = NaN"
| "fadd NInf (Fin y) = NInf"
| "fadd NInf PInf = NaN"
| "fadd NInf NInf = NInf"
| "fadd NaN b = NaN"
| "fadd (Fin x) NaN = NaN"
| "fadd PInf NaN = NaN"
| "fadd NInf NaN = NaN"

definition fsub :: "pyfloat \<Rightarrow> pyfloat \<Rightarrow> pyfloat" where
  "fsub a b = fadd a (fneg b)"

definition scale_inf :: "real \<Rightarrow> pyfloat \<Rightarrow> pyfloat" where
  "scale_inf x i = (if 0 < x then i else if x < 0 then fneg i else NaN)"

fun fmul :: "pyfloat \<Rightarrow> pyfloat \<Rightarrow> pyfloat" where
  "fmul (Fin x) (Fin y) = Fin (x * y)"
| "fmul (Fin x) PInf = scale_inf x PInf"
| "fmul (Fin x) NInf = scale_inf x NInf"
| "fmul PInf (Fin y) = scale_inf y PInf"
| "fmul PInf PInf = PInf"
| "fmul PInf NInf = NInf"
| "fmul NInf (Fin y) = scale_inf y NInf"
| "fmul NInf PInf = NInf"
| "fmul NInf NInf = PInf"
| "fmul NaN b = NaN"
| "fmul (Fin x) NaN = NaN"
| "fmul PInf NaN = NaN"
| "fmul NInf NaN = NaN"

text \<open>
  Division of numpy scalars and arrays: a zero divisor gives an infinity or \<open>nan\<close>
  (with a warning), never an exception.
\<close>

fun fdiv :: "pyfloat \<Rightarrow> pyfloat \<Rightarrow> pyfloat" where
  "fdiv (Fin x) (Fin y) = (if y \<noteq> 0 then Fin (x / y) else scale_inf x PInf)"
| "fdiv (Fin x) PInf = Fin 0"
| "fdiv (Fin x) NInf = Fin 0"
| "fdiv PInf (Fin y) = (if 0 \<le> y then PInf else NInf)"
| "fdiv PInf PInf = NaN"
| "fdiv PInf NInf = NaN"
| "fdiv NInf (Fin y) = (if 0 \<le> y then NInf else PInf)"
| "fdiv NInf PInf = NaN"
| "fdiv NInf NInf = NaN"
| "fdiv NaN b = NaN"
| "fdiv (Fin x) NaN = NaN"
| "fdiv PInf NaN = NaN"
| "fdiv NInf NaN = NaN"

text \<open>\<open>x**2.\<close>\<close>

definition fsq :: "pyfloat \<Rightarrow> pyfloat" where
  "fsq x = fmul x x"

fun fabs :: "pyfloat \<Rightarrow> pyfloat" where
  "fabs (Fin x) = Fin \<bar>x\<bar>"
| "fabs PInf = PInf"
| "fabs NInf = PInf"
| "fabs NaN = NaN"

text \<open>\<open>np.max\<close> of a two-element array: \<open>nan\<close> propagates.\<close>

definition fmax2 :: "pyfloat \<Rightarrow> pyfloat \<Rightarrow> pyfloat" where
  "fmax2 a b = (if isnan a \<or> isnan b then NaN else if fle a b then b else a)"

fun np_log :: "pyfloat \<Rightarrow> pyfloat" where
  "np_log (Fin x) = (if 0 < x then Fin (ln x) else if x = 0 then NInf else NaN)"
| "np_log PInf = PInf"
| "np_log NInf = NaN"
| "np_log NaN = NaN"

fun np_log10 :: "pyfloat \<Rightarrow> pyfloat" where
  "np_log10 (Fin x) = (if 0 < x then Fin (log 10 x) else if x = 0 then NInf else NaN)"
| "np_log10 PInf = PInf"
| "np_log10 NInf = NaN"
| "np_log10 NaN = NaN"

fun np_sqrt :: "pyfloat \<Rightarrow> pyfloat" where
  "np_sqrt (Fin x) = (if 0 \<le> x then Fin (sqrt x) else NaN)"
| "np_sqrt PInf = PInf"
| "np_sqrt NInf = NaN"
| "np_sqrt NaN = NaN"

text \<open>
  The power \<open>b ** a\<close> of the extinction law is only ever taken of a ratio of two filter
  wavelengths. The model covers a positive finite base and a finite exponent; outside
  that domain it answers \<open>nan\<close> in place of the library's table of special cases.
\<close>

fun fpow :: "pyfloat \<Rightarrow> pyfloat \<Rightarrow> pyfloat" where
  "fpow (Fin b) (Fin a) = (if 0 < b then Fin (b powr a) else NaN)"
| "fpow (Fin b) PInf = NaN"
| "fpow (Fin b) NInf = NaN"
| "fpow (Fin b) NaN = NaN"
| "fpow PInf a = NaN"
| "fpow NInf a = NaN"
| "fpow NaN a = NaN"

section \<open>Exceptions, results and the log of calls\<close>

datatype error = IndexError | ValueError | KeyError | UnitTypeError | UnitConversionError

text \<open>
  The collaborators outside this repository's fitter classes (the isochrone interpolation,
  the stellar-parameter calculation and the light-curve module) are parameters of the
  model. Whether a method reaches them is observable in a log of events: a method returns
  its result (a value or the exception raised) together with the events it caused, in
  order.
\<close>

datatype event =
    Ev_lnlike
  | Ev_calculate_model_lc
  | Ev_calculate_model_obs
  | Ev_rad_interp
  | Ev_calc_stellar_params
  | Ev_single_star_lc
  | Ev_binary_star_lc
  | Ev_dist_ext_mag_calc
  | Ev_flux_adj
  | Ev_phased_obs
  | Ev_np_sum

type_synonym 'a run = "(error + 'a) \<times> event list"

definition returnR :: "'a \<Rightarrow> 'a run" where
  "returnR x = (Inr x, [])"

definition raiseR :: "error \<Rightarrow> 'a run" where
  "raiseR e = (Inl e, [])"

definition callR :: "event \<Rightarrow> 'a \<Rightarrow> 'a run" where
  "callR ev x = (Inr x, [ev])"

definition liftR :: "error + 'a \<Rightarrow> 'a run" where
  "liftR r = (r, [])"

definition bindR :: "'a run \<Rightarrow> ('a \<Rightarrow> 'b run) \<Rightarrow> 'b run" where
  "bindR m f =
     (case m of
        (Inl e, tr) \<Rightarrow> (Inl e, tr)
      | (Inr x, tr) \<Rightarrow> (case f x of (r, tr') \<Rightarrow> (r, tr @ tr')))"

definition bindE :: "error + 'a \<Rightarrow> ('a \<Rightarrow> error + 'b) \<Rightarrow> error + 'b" where
  "bindE m f = (case m of Inl e \<Rightarrow> Inl e | Inr x \<Rightarrow> f x)"

section \<open>numpy arrays\<close>

type_synonym arr = "pyfloat list"

text \<open>\<open>a[0]\<close>: an empty array raises \<open>IndexError\<close>.\<close>

fun first :: "arr \<Rightarrow> error + pyfloat" where
  "first [] = Inl IndexError"
| "first (x # xs) = Inr x"

text \<open>\<open>a[0] == -1.\<close>, the test for the failure sentinel.\<close>

definition is_sentinel :: "arr \<Rightarrow> error + bool" where
  "is_sentinel a = (case first a of Inl e \<Rightarrow> Inl e | Inr x \<Rightarrow> Inr (feq x (Fin (- 1))))"

text \<open>
  \<open>(a[0] == -1.) or (b[0] == -1.)\<close>: \<open>or\<close> does not evaluate its second operand when the
  first is true.
\<close>

definition either_sentinel :: "arr \<Rightarrow> arr \<Rightarrow> error + bool" where
  "either_sentinel a b =
     (case is_sentinel a of
        Inl e \<Rightarrow> Inl e
      | Inr True \<Rightarrow> Inr True
      | Inr False \<Rightarrow> is_sentinel b)"

text \<open>\<open>a[inds]\<close> with an array of indices: an index out of range raises \<open>IndexError\<close>.\<close>

definition take_inds :: "'a list \<Rightarrow> nat list \<Rightarrow> error + 'a list" where
  "take_inds a inds =
     (if list_all (\<lambda>i. i < length a) inds then Inr (map (\<lambda>i. a ! i) inds) else Inl IndexError)"

text \<open>
  An elementwise binary operation: arrays of equal length are combined position by
  position, an array of length one is broadcast, other shapes raise \<open>ValueError\<close>.
\<close>

definition elementwise :: "(pyfloat \<Rightarrow> pyfloat \<Rightarrow> pyfloat) \<Rightarrow> arr \<Rightarrow> arr \<Rightarrow> error + arr" where
  "elementwise f a b =
     (if length a = length b then Inr (map2 f a b)
      else if length b = 1 then Inr (map (\<lambda>x. f x (hd b)) a)
      else if length a = 1 then Inr (map (\<lambda>y. f (hd a) y) b)
      else Inl ValueError)"

text \<open>\<open>np.sum\<close>; the sum of an empty array is \<open>0.0\<close>.\<close>

definition np_sum :: "arr \<Rightarrow> pyfloat" where
  "np_sum a = foldr fadd a (Fin 0)"

text \<open>\<open>np.where(np.logical_not(np.isnan(a)))\<close>: the positions of the values that are not \<open>nan\<close>.\<close>

definition where_not_nan :: "arr \<Rightarrow> nat list" where
  "where_not_nan a = filter (\<lambda>i. \<not> isnan (a ! i)) [0..<length a]"

text \<open>
  The array under \<open>np.sum\<close> in the photometric terms of the likelihood,
  \<open>(obs[inds] - model)**2. / (errors[inds])**2.\<close>, in the order in which Python evaluates
  its parts.
\<close>

definition chi_terms :: "arr \<Rightarrow> nat list \<Rightarrow> arr \<Rightarrow> arr \<Rightarrow> error + arr" where
  "chi_terms obs inds model errors =
     bindE (take_inds obs inds) (\<lambda>obs_sorted.
     bindE (elementwise fsub obs_sorted model) (\<lambda>resid.
     bindE (take_inds errors inds) (\<lambda>errors_sorted.
       elementwise fdiv (map fsq resid) (map fsq errors_sorted))))"

section \<open>Quantities\<close>

text \<open>
  A number as the methods of the blackbody fitter hold it: a plain float, or a quantity
  with a physical unit, kept by its value. A dimensionless quantity converts to a plain
  float wherever one is used and is modelled as one. Two quantities that meet in the
  operations below have the same unit.
\<close>

datatype num = Plain pyfloat | Quantity pyfloat

fun value_of :: "num \<Rightarrow> pyfloat" where
  "value_of (Plain x) = x"
| "value_of (Quantity x) = x"

fun num_map :: "(pyfloat \<Rightarrow> pyfloat) \<Rightarrow> num \<Rightarrow> num" where
  "num_map f (Plain x) = Plain (f x)"
| "num_map f (Quantity x) = Quantity (f x)"

text \<open>
  A plain number may stand beside a quantity with a unit only when it is zero, infinite
  or \<open>nan\<close> (the library's \<open>can_have_arbitrary_unit\<close>); it then takes the unit of the
  quantity. Otherwise the library raises \<open>UnitConversionError\<close>.
\<close>

definition arbitrary_unit :: "pyfloat \<Rightarrow> bool" where
  "arbitrary_unit x = (feq x (Fin 0) \<or> \<not> isfinite x)"

fun num_gt :: "num \<Rightarrow> num \<Rightarrow> error + bool" where
  "num_gt (Plain a) (Plain b) = Inr (fgt a b)"
| "num_gt (Quantity a) (Quantity b) = Inr (fgt a b)"
| "num_gt (Plain a) (Quantity b) =
     (if arbitrary_unit a then Inr (fgt a b) else Inl UnitConversionError)"
| "num_gt (Quantity a) (Plain b) =
     (if arbitrary_unit b then Inr (fgt a b) else Inl UnitConversionError)"

fun num_add :: "num \<Rightarrow> num \<Rightarrow> error + num" where
  "num_add (Plain a) (Plain b) = Inr (Plain (fadd a b))"
| "num_add (Quantity a) (Quantity b) = Inr (Quantity (fadd a b))"
| "num_add (Plain a) (Quantity b) =
     (if arbitrary_unit a then Inr (Quantity (fadd a b)) else Inl UnitConversionError)"
| "num_add (Quantity a) (Plain b) =
     (if arbitrary_unit b then Inr (Quantity (fadd a b)) else Inl UnitConversionError)"

fun num_sub :: "num \<Rightarrow> num \<Rightarrow> error + num" where
  "num_sub (Plain a) (Plain b) = Inr (Plain (fsub a b))"
| "num_sub (Quantity a) (Quantity b) = Inr (Quantity (fsub a b))"
| "num_sub (Plain a) (Quantity b) =
     (if arbitrary_unit a then Inr (Quantity (fsub a b)) else Inl UnitConversionError)"
| "num_sub (Quantity a) (Plain b) =
     (if arbitrary_unit b then Inr (Quantity (fsub a b)) else Inl UnitConversionError)"

text \<open>
  An array of radial velocities as the light-curve module hands it over: a plain array,
  or an array of quantities in \<open>km/s\<close>.
\<close>

datatype vel = Unitless arr | Kms arr

fun vel_values :: "vel \<Rightarrow> arr" where
  "vel_values (Unitless a) = a"
| "vel_values (Kms a) = a"

text \<open>
  \<open>binary_RVs + binary_rv_sys\<close>, where \<open>binary_rv_sys\<close> is a quantity in \<open>km/s\<close>: a plain
  array qualifies when all its elements may have an arbitrary unit.
\<close>

definition vel_add_sys :: "vel \<Rightarrow> pyfloat \<Rightarrow> error + vel" where
  "vel_add_sys v rv_sys =
     (case v of
        Kms a \<Rightarrow> Inr (Kms (map (\<lambda>x. fadd x rv_sys) a))
      | Unitless a \<Rightarrow>
          (if list_all arbitrary_unit a then Inr (Kms (map (\<lambda>x. fadd x rv_sys) a))
           else Inl UnitConversionError))"

text \<open>
  \<open>obs - model\<close> for observed velocities in \<open>km/s\<close> and model velocities: the units are
  settled before the shapes are.
\<close>

definition vel_resid :: "arr \<Rightarrow> vel \<Rightarrow> arr \<Rightarrow> error + arr" where
  "vel_resid obs_kept model model_kept =
     (case model of
        Kms a \<Rightarrow> elementwise fsub obs_kept model_kept
      | Unitless a \<Rightarrow>
          (if list_all arbitrary_unit model_kept then elementwise fsub obs_kept model_kept
           else Inl UnitConversionError))"

section \<open>The fitter objects\<close>

text \<open>
  The attributes that \<open>mcmc_fitter_rad_interp\<close> and \<open>mcmc_fitter_bb\<close> both have, under the
  same names. Class attributes and instance attributes are one record: a setter returns
  the updated record.
\<close>

record fitter =
  ext_alpha :: pyfloat
  use_blackbody_atm :: bool
  model_numTriangles :: nat
  model_eccentricity :: bool
  lo_Kp_ext_prior_bound :: pyfloat
  hi_Kp_ext_prior_bound :: pyfloat
  lo_H_ext_mod_prior_bound :: pyfloat
  hi_H_ext_mod_prior_bound :: pyfloat
  lo_inc_prior_bound :: pyfloat
  hi_inc_prior_bound :: pyfloat
  lo_period_prior_bound :: pyfloat
  hi_period_prior_bound :: pyfloat
  lo_ecc_prior_bound :: pyfloat
  hi_ecc_prior_bound :: pyfloat
  lo_t0_prior_bound :: pyfloat
  hi_t0_prior_bound :: pyfloat
  Ks_ext :: pyfloat
  dist :: pyfloat
  kp_obs_mags :: arr
  kp_obs_mag_errors :: arr
  h_obs_mags :: arr
  h_obs_mag_errors :: arr

subsection \<open>\<open>mcmc_fitter_rad_interp\<close> (mcmc_fit.py)\<close>

text \<open>
  \<open>iso_rad_min\<close> and \<open>iso_rad_max\<close> are the attributes of \<open>self.isochrone\<close> that the prior
  reads; \<open>Kp_ext\<close> and \<open>H_ext\<close> are set by \<open>make_isochrone\<close>.
\<close>

record mcmc_fitter_rad_interp = fitter +
  lambda_Kp :: pyfloat
  lambda_H :: pyfloat
  iso_rad_min :: pyfloat
  iso_rad_max :: pyfloat
  Kp_ext :: pyfloat
  H_ext :: pyfloat
  Kp_observation_times :: arr
  H_observation_times :: arr

text \<open>
  The tuple assignment at the head of \<open>lnprior\<close>, \<open>calculate_model_lc\<close> and \<open>lnlike\<close>:
  eight names from \<open>theta\<close> when the eccentricity is modelled, seven otherwise (the
  eccentricity keeps its initial value \<open>0.\<close>). A \<open>theta\<close> of another length raises
  \<open>ValueError\<close>.
\<close>

fun unpack8 :: "arr \<Rightarrow>
    error + (pyfloat \<times> pyfloat \<times> pyfloat \<times> pyfloat \<times> pyfloat \<times> pyfloat \<times> pyfloat \<times> pyfloat)" where
  "unpack8 [a, b, c, d, e, f, g, h] = Inr (a, b, c, d, e, f, g, h)"
| "unpack8 theta = Inl ValueError"

fun unpack7 :: "arr \<Rightarrow>
    error + (pyfloat \<times> pyfloat \<times> pyfloat \<times> pyfloat \<times> pyfloat \<times> pyfloat \<times> pyfloat \<times> pyfloat)" where
  "unpack7 [a, b, c, d, e, f, h] = Inr (a, b, c, d, e, f, Fin 0, h)"
| "unpack7 theta = Inl ValueError"

definition unpack_theta :: "mcmc_fitter_rad_interp \<Rightarrow> arr \<Rightarrow>
    error + (pyfloat \<times> pyfloat \<times> pyfloat \<times> pyfloat \<times> pyfloat \<times> pyfloat \<times> pyfloat \<times> pyfloat)" where
  "unpack_theta self theta = (if model_eccentricity self then unpack8 theta else unpack7 theta)"

text \<open>
  \<open>lnprior\<close> of the radius-interpolation fitter. The local names carry the suffix \<open>_t\<close>, as
  in the two other methods, to keep them apart from the attributes \<open>Kp_ext\<close> and \<open>H_ext\<close>.
\<close>

definition lnprior_rad_interp :: "mcmc_fitter_rad_interp \<Rightarrow> arr \<Rightarrow> error + pyfloat" where
  "lnprior_rad_interp self theta =
     (case unpack_theta self theta of
        Inl e \<Rightarrow> Inl e
      | Inr (Kp_ext_t, H_ext_mod_t, star1_rad_t, star2_rad_t,
             binary_inc_t, binary_period_t, binary_ecc_t, t0_t) \<Rightarrow>
          (let Kp_ext_check =
                 in_bound (lo_Kp_ext_prior_bound self) Kp_ext_t (hi_Kp_ext_prior_bound self);
               H_ext_mod_check =
                 in_bound (lo_H_ext_mod_prior_bound self) H_ext_mod_t (hi_H_ext_mod_prior_bound self);
               inc_check =
                 in_bound (lo_inc_prior_bound self) binary_inc_t (hi_inc_prior_bound self);
               period_check =
                 in_bound (lo_period_prior_bound self) binary_period_t (hi_period_prior_bound self);
               ecc_check =
                 in_bound (lo_ecc_prior_bound self) binary_ecc_t (hi_ecc_prior_bound self);
               t0_check =
                 in_bound (lo_t0_prior_bound self) t0_t (hi_t0_prior_bound self);
               rad_check =
                 (fge star1_rad_t star2_rad_t \<and>
                  in_bound (iso_rad_min self) star1_rad_t (iso_rad_max self) \<and>
                  in_bound (iso_rad_min self) star2_rad_t (iso_rad_max self))
           in if (Kp_ext_check \<and> H_ext_mod_check) \<and> inc_check \<and> period_check
                 \<and> ecc_check \<and> t0_check \<and> rad_check
              then Inr (Fin 0)
              else Inr NInf))"

text \<open>
  The class attributes of \<open>mcmc_fitter_rad_interp\<close>, with an isochrone whose radii range
  over \<open>[1, 100]\<close> and no observations loaded.
\<close>

definition rad_interp_defaults :: mcmc_fitter_rad_interp where
  "rad_interp_defaults =
     \<lparr> ext_alpha = Fin 2.30, use_blackbody_atm = False, model_numTriangles = 1500,
       model_eccentricity = True,
       lo_Kp_ext_prior_bound = Fin 2, hi_Kp_ext_prior_bound = Fin 4,
       lo_H_ext_mod_prior_bound = Fin (- 2), hi_H_ext_mod_prior_bound = Fin 2,
       lo_inc_prior_bound = Fin 0, hi_inc_prior_bound = Fin 180,
       lo_period_prior_bound = Fin 79, hi_period_prior_bound = Fin 81,
       lo_ecc_prior_bound = Fin (- 0.1), hi_ecc_prior_bound = Fin 0.1,
       lo_t0_prior_bound = Fin 51773, hi_t0_prior_bound = Fin 51774,
       Ks_ext = Fin 2, dist = Fin 8000,
       kp_obs_mags = [], kp_obs_mag_errors = [], h_obs_mags = [], h_obs_mag_errors = [],
       lambda_Kp = Fin 0.000002124, lambda_H = Fin 0.000001633,
       iso_rad_min = Fin 1, iso_rad_max = Fin 100,
       Kp_ext = Fin 2, H_ext = Fin 3,
       Kp_observation_times = [], H_observation_times = [] \<rparr>"

text \<open>
  The collaborators of the radius-interpolation fitter: \<open>self.isochrone.rad_interp\<close> and the
  functions of the module \<open>lc_calc\<close>. They are parameters of the model; each returns the
  tuple its caller unpacks. A star's full parameters are
  \<open>(mass_init, mass, rad, lum, teff, mag_Kp, mag_H)\<close>; the parameters handed on to the
  light-curve functions are opaque.
\<close>

type_synonym star_params_all =
  "pyfloat \<times> pyfloat \<times> pyfloat \<times> pyfloat \<times> pyfloat \<times> pyfloat \<times> pyfloat"

type_synonym star_params_lcfit = "pyfloat list"

type_synonym binary_params = "pyfloat \<times> pyfloat \<times> pyfloat \<times> pyfloat"

type_synonym phase_out = "arr \<times> nat list \<times> arr"

record lc_calc =
  rad_interp :: "pyfloat \<Rightarrow> star_params_all \<times> star_params_lcfit"
  single_star_lc :: "star_params_lcfit \<Rightarrow> bool \<Rightarrow> nat \<Rightarrow> arr \<times> arr"
  dist_ext_mag_calc :: "arr \<times> arr \<Rightarrow> pyfloat \<Rightarrow> pyfloat \<Rightarrow> pyfloat \<Rightarrow> arr \<times> arr"
  binary_star_lc ::
    "star_params_lcfit \<Rightarrow> star_params_lcfit \<Rightarrow> binary_params \<Rightarrow> arr \<times> arr \<Rightarrow> bool \<Rightarrow> nat
       \<Rightarrow> arr \<times> arr"
  flux_adj ::
    "arr \<times> arr \<Rightarrow> pyfloat \<times> pyfloat \<Rightarrow> arr \<times> arr \<Rightarrow> pyfloat \<times> pyfloat \<Rightarrow> arr \<times> arr
       \<Rightarrow> arr \<times> arr"
  phased_obs :: "arr \<times> arr \<Rightarrow> pyfloat \<Rightarrow> pyfloat \<Rightarrow> phase_out \<times> phase_out"

text \<open>\<open>err_out = (np.array([-1.]), np.array([-1.]))\<close>\<close>

definition err_out :: "arr \<times> arr" where
  "err_out = ([Fin (- 1)], [Fin (- 1)])"

text \<open>\<open>calculate_model_lc\<close> of the radius-interpolation fitter.\<close>

definition calculate_model_lc ::
    "mcmc_fitter_rad_interp \<Rightarrow> lc_calc \<Rightarrow> arr \<Rightarrow> (arr \<times> arr) run" where
  "calculate_model_lc self env theta =
     bindR (callR Ev_calculate_model_lc ()) (\<lambda>_.
     bindR (liftR (unpack_theta self theta))
       (\<lambda>(Kp_ext_t, H_ext_mod_t, star1_rad_t, star2_rad_t,
          binary_inc_t, binary_period_t, binary_ecc_t, t0_t).
     let binary_params = (binary_period_t, binary_ecc_t, binary_inc_t, t0_t);
         Kp_ext_adj = fsub Kp_ext_t (Kp_ext self);
         H_ext_adj =
           fadd (fsub (fmul Kp_ext_t (fpow (fdiv (lambda_Kp self) (lambda_H self)) (ext_alpha self)))
                      (H_ext self))
                H_ext_mod_t
     in
     bindR (callR Ev_rad_interp (rad_interp env star1_rad_t))
       (\<lambda>(star1_params_all, star1_params_lcfit).
     bindR (callR Ev_rad_interp (rad_interp env star2_rad_t))
       (\<lambda>(star2_params_all, star2_params_lcfit).
     case star1_params_all of
       (star1_mass_init, star1_mass, star1_rad, star1_lum, star1_teff, star1_mag_Kp, star1_mag_H) \<Rightarrow>
     case star2_params_all of
       (star2_mass_init, star2_mass, star2_rad, star2_lum, star2_teff, star2_mag_Kp, star2_mag_H) \<Rightarrow>
     bindR (callR Ev_single_star_lc
              (single_star_lc env star1_params_lcfit (use_blackbody_atm self) (model_numTriangles self)))
       (\<lambda>(star1_sing_mag_Kp, star1_sing_mag_H).
     bindR (liftR (either_sentinel star1_sing_mag_Kp star1_sing_mag_H)) (\<lambda>star1_failed.
     if star1_failed then returnR err_out else
     bindR (callR Ev_single_star_lc
              (single_star_lc env star2_params_lcfit (use_blackbody_atm self) (model_numTriangles self)))
       (\<lambda>(star2_sing_mag_Kp, star2_sing_mag_H).
     bindR (liftR (either_sentinel star2_sing_mag_Kp star2_sing_mag_H)) (\<lambda>star2_failed.
     if star2_failed then returnR err_out else
     bindR (callR Ev_dist_ext_mag_calc
              (dist_ext_mag_calc env (star1_sing_mag_Kp, star1_sing_mag_H)
                 (dist self) (Kp_ext self) (H_ext self)))
       (\<lambda>(star1_sing_mag_Kp, star1_sing_mag_H).
     bindR (callR Ev_dist_ext_mag_calc
              (dist_ext_mag_calc env (star2_sing_mag_Kp, star2_sing_mag_H)
                 (dist self) (Kp_ext self) (H_ext self)))
       (\<lambda>(star2_sing_mag_Kp, star2_sing_mag_H).
     bindR (callR Ev_binary_star_lc
              (binary_star_lc env star1_params_lcfit star2_params_lcfit binary_params
                 (Kp_observation_times self, H_observation_times self)
                 (use_blackbody_atm self) (model_numTriangles self)))
       (\<lambda>(binary_mags_Kp, binary_mags_H).
     bindR (liftR (either_sentinel binary_mags_Kp binary_mags_H)) (\<lambda>binary_failed.
     if binary_failed then returnR err_out else
     bindR (callR Ev_dist_ext_mag_calc
              (dist_ext_mag_calc env (binary_mags_Kp, binary_mags_H)
                 (dist self) (Kp_ext self) (H_ext self)))
       (\<lambda>(binary_mags_Kp, binary_mags_H).
     bindR (callR Ev_flux_adj
              (flux_adj env (star1_sing_mag_Kp, star1_sing_mag_H) (star1_mag_Kp, star1_mag_H)
                 (star2_sing_mag_Kp, star2_sing_mag_H) (star2_mag_Kp, star2_mag_H)
                 (binary_mags_Kp, binary_mags_H)))
       (\<lambda>(binary_mags_Kp, binary_mags_H).
     returnR (map (\<lambda>m. fadd m Kp_ext_adj) binary_mags_Kp,
              map (\<lambda>m. fadd m H_ext_adj) binary_mags_H)))))))))))))))"

text \<open>
  \<open>lnlike\<close> of the radius-interpolation fitter. Each \<open>np.sum\<close> is logged, so that a run that
  computes no chi-square sum is recognisable.
\<close>

definition lnlike_rad_interp :: "mcmc_fitter_rad_interp \<Rightarrow> lc_calc \<Rightarrow> arr \<Rightarrow> pyfloat run" where
  "lnlike_rad_interp self env theta =
     bindR (callR Ev_lnlike ()) (\<lambda>_.
     bindR (liftR (unpack_theta self theta))
       (\<lambda>(Kp_ext_t, H_ext_mod_t, star1_rad_t, star2_rad_t,
          binary_inc_t, binary_period_t, binary_ecc_t, t0_t).
     bindR (calculate_model_lc self env theta) (\<lambda>(binary_model_mags_Kp, binary_model_mags_H).
     bindR (liftR (either_sentinel binary_model_mags_Kp binary_model_mags_H)) (\<lambda>model_failed.
     if model_failed then returnR NInf else
     bindR (callR Ev_phased_obs
              (phased_obs env (Kp_observation_times self, H_observation_times self)
                 binary_period_t t0_t))
       (\<lambda>(kp_phase_out, h_phase_out).
     case kp_phase_out of (kp_phased_days, kp_phases_sorted_inds, kp_model_times) \<Rightarrow>
     case h_phase_out of (h_phased_days, h_phases_sorted_inds, h_model_times) \<Rightarrow>
     bindR (liftR (chi_terms (kp_obs_mags self) kp_phases_sorted_inds binary_model_mags_Kp
                     (kp_obs_mag_errors self))) (\<lambda>kp_terms.
     bindR (callR Ev_np_sum (np_sum kp_terms)) (\<lambda>log_likelihood.
     bindR (liftR (chi_terms (h_obs_mags self) h_phases_sorted_inds binary_model_mags_H
                     (h_obs_mag_errors self))) (\<lambda>h_terms.
     bindR (callR Ev_np_sum (np_sum h_terms)) (\<lambda>h_sum.
     let log_likelihood = fadd log_likelihood h_sum;
         log_likelihood = fmul (Fin (- 0.5)) log_likelihood
     in returnR log_likelihood)))))))))"

text \<open>\<open>lnprob\<close> of the radius-interpolation fitter.\<close>

definition lnprob_rad_interp :: "mcmc_fitter_rad_interp \<Rightarrow> lc_calc \<Rightarrow> arr \<Rightarrow> pyfloat run" where
  "lnprob_rad_interp self env theta =
     bindR (liftR (lnprior_rad_interp self theta)) (\<lambda>lp.
     if \<not> isfinite lp then returnR NInf
     else bindR (lnlike_rad_interp self env theta) (\<lambda>ll. returnR (fadd lp ll)))"

subsection \<open>\<open>mcmc_fitter_bb\<close> (phitter/mcmc_fit_bb_wRV.py)\<close>

text \<open>
  A filter object of \<open>filters.py\<close>, with the attributes the fitter reads, and the two
  module-level filters \<open>kp_filt\<close> and \<open>h_filt\<close>. The class defines neither \<open>__eq__\<close> nor
  \<open>__hash__\<close>, so a dictionary keyed by filters is keyed by the identity of the objects:
  \<open>obj_id\<close> is that identity, different for any two objects, also when their attributes
  agree.
\<close>

record filt =
  obj_id :: nat
  filter_name :: string
  lambda_filt :: pyfloat
  dlambda_filt :: pyfloat

definition kp_filt :: filt where
  "kp_filt = \<lparr> obj_id = 0, filter_name = ''nirc2,Kp'', lambda_filt = Fin 0.000002124,
               dlambda_filt = Fin 0.000000351 \<rparr>"

definition h_filt :: filt where
  "h_filt = \<lparr> obj_id = 1, filter_name = ''nirc2,H'', lambda_filt = Fin 0.000001633,
              dlambda_filt = Fin 0.000000296 \<rparr>"

text \<open>
  The attributes of \<open>mcmc_fitter_bb\<close> beyond the shared ones. \<open>lambda_Ks\<close> is the class
  attribute; \<open>filts_ext\<close> is the dictionary from filter to extinction. The index arrays
  \<open>search_filt_*\<close> are the arrays inside the one-element tuples that \<open>np.where\<close> returns.
  The defaults of the stellar parameters are quantities, as the class declares them: the
  record holds their values in solar masses, solar radii and kelvin. \<open>dist\<close> is a quantity
  in parsec, the wavelengths are quantities in metres, and the observed radial velocities
  and their uncertainties are quantities in \<open>km/s\<close>. All other numeric attributes are plain
  numbers. The record is a fitter on which \<open>make_bb_params\<close> and the three setters of the
  observations have been called, so that every attribute read below exists.
\<close>

record mcmc_fitter_bb = fitter +
  lambda_Ks :: pyfloat
  ext_alpha_unc :: pyfloat
  irrad_frac_refl :: pyfloat
  default_H_ext_mod :: pyfloat
  model_H_ext_mod :: bool
  default_ecc :: pyfloat
  default_dist :: pyfloat
  model_distance :: bool
  default_system_RV :: pyfloat
  model_system_RV :: bool
  model_star1_mass :: bool
  default_star1_mass :: pyfloat
  model_star1_rad :: bool
  default_star1_rad :: pyfloat
  model_star1_teff :: bool
  default_star1_teff :: pyfloat
  model_star2_mass :: bool
  default_star2_mass :: pyfloat
  model_star2_rad :: bool
  default_star2_rad :: pyfloat
  model_star2_teff :: bool
  default_star2_teff :: pyfloat
  model_compact :: bool
  star1_mass_larger :: bool
  star1_rad_larger :: bool
  star1_teff_larger :: bool
  star2_mass_larger :: bool
  star2_rad_larger :: bool
  star2_teff_larger :: bool
  H_ext_mod_alpha_sig_bound :: pyfloat
  lo_star1_mass_prior_bound :: pyfloat
  hi_star1_mass_prior_bound :: pyfloat
  lo_star1_rad_prior_bound :: pyfloat
  hi_star1_rad_prior_bound :: pyfloat
  lo_star1_teff_prior_bound :: pyfloat
  hi_star1_teff_prior_bound :: pyfloat
  star1_teff_sig_bound :: bool
  star1_teff_bound_mu :: pyfloat
  star1_teff_bound_sigma :: pyfloat
  lo_star2_mass_prior_bound :: pyfloat
  hi_star2_mass_prior_bound :: pyfloat
  lo_star2_rad_prior_bound :: pyfloat
  hi_star2_rad_prior_bound :: pyfloat
  lo_star2_teff_prior_bound :: pyfloat
  hi_star2_teff_prior_bound :: pyfloat
  lo_rv_sys_prior_bound :: pyfloat
  hi_rv_sys_prior_bound :: pyfloat
  lo_dist_prior_bound :: pyfloat
  hi_dist_prior_bound :: pyfloat
  filts_list :: "filt list"
  num_filts :: nat
  filts_ext :: "filt \<rightharpoonup> pyfloat"
  obs_filts :: "string list"
  search_filt_kp :: "nat list"
  search_filt_h :: "nat list"
  search_filt_rv_pri :: "nat list"
  search_filt_rv_sec :: "nat list"
  search_filt_rv :: "nat list"
  obs_filts_rv :: "string list"
  obs_times :: arr
  observation_times :: "arr \<times> arr \<times> arr"
  obs :: arr
  obs_errors :: arr
  obs_rv_pri :: arr
  obs_rv_pri_errors :: arr
  obs_rv_sec :: arr
  obs_rv_sec_errors :: arr

text \<open>
  \<open>make_bb_params\<close>. The loop over the filters fills \<open>filts_ext\<close>; the filter metadata
  (\<open>filts_info\<close>, \<open>filts_flux_ref\<close>) and the object \<open>bb_params_obj\<close>, which no modelled
  method reads except through the collaborator \<open>calc_stellar_params\<close>, are left out.
\<close>

definition cur_filt_ext :: "mcmc_fitter_bb \<Rightarrow> pyfloat \<Rightarrow> filt \<Rightarrow> pyfloat" where
  "cur_filt_ext self Ks_ext_arg cur_filt =
     fmul Ks_ext_arg (fpow (fdiv (lambda_Ks self) (lambda_filt cur_filt)) (ext_alpha self))"

fun fill_filts_ext ::
    "mcmc_fitter_bb \<Rightarrow> pyfloat \<Rightarrow> filt list \<Rightarrow> (filt \<rightharpoonup> pyfloat) \<Rightarrow> (filt \<rightharpoonup> pyfloat)" where
  "fill_filts_ext self Ks_ext_arg [] d = d"
| "fill_filts_ext self Ks_ext_arg (cur_filt # rest) d =
     fill_filts_ext self Ks_ext_arg rest (d(cur_filt \<mapsto> cur_filt_ext self Ks_ext_arg cur_filt))"

definition make_bb_params ::
    "mcmc_fitter_bb \<Rightarrow> pyfloat \<Rightarrow> pyfloat \<Rightarrow> filt list \<Rightarrow> mcmc_fitter_bb" where
  "make_bb_params self Ks_ext_arg dist_arg filts_list_arg =
     self\<lparr> Ks_ext := Ks_ext_arg,
           dist := dist_arg,
           default_dist := dist_arg,
           lo_dist_prior_bound := fmul (Fin 0.8) dist_arg,
           hi_dist_prior_bound := fmul (Fin 1.2) dist_arg,
           filts_list := filts_list_arg,
           num_filts := length filts_list_arg,
           filts_ext := fill_filts_ext self Ks_ext_arg filts_list_arg Map.empty \<rparr>"

definition set_dist_prior_bounds ::
    "mcmc_fitter_bb \<Rightarrow> pyfloat \<Rightarrow> pyfloat \<Rightarrow> mcmc_fitter_bb" where
  "set_dist_prior_bounds self lo_bound hi_bound =
     self\<lparr> lo_dist_prior_bound := lo_bound, hi_dist_prior_bound := hi_bound \<rparr>"

text \<open>\<open>np.where(a == label)\<close> on an array of strings.\<close>

definition where_eq :: "string list \<Rightarrow> string \<Rightarrow> nat list" where
  "where_eq a label = filter (\<lambda>i. a ! i = label) [0..<length a]"

text \<open>
  \<open>np.unique\<close>: the distinct values in ascending order (a \<open>nan\<close> sorts last).
\<close>

fun insert_sorted :: "pyfloat \<Rightarrow> arr \<Rightarrow> arr" where
  "insert_sorted x [] = [x]"
| "insert_sorted x (y # ys) =
     (if x = y then y # ys
      else if flt x y \<or> (isnan y \<and> \<not> isnan x) then x # y # ys
      else y # insert_sorted x ys)"

definition np_unique :: "arr \<Rightarrow> arr" where
  "np_unique a = foldr insert_sorted a []"

definition set_observation_filts :: "mcmc_fitter_bb \<Rightarrow> string list \<Rightarrow> mcmc_fitter_bb" where
  "set_observation_filts self obs_filts_arg =
     (let pri = where_eq obs_filts_arg ''rv_pri'';
          sec = where_eq obs_filts_arg ''rv_sec''
      in self\<lparr> obs_filts := obs_filts_arg,
               search_filt_kp := where_eq obs_filts_arg ''kp'',
               search_filt_h := where_eq obs_filts_arg ''h'',
               search_filt_rv_pri := pri,
               search_filt_rv_sec := sec,
               search_filt_rv := pri @ sec,
               obs_filts_rv := map (\<lambda>i. obs_filts_arg ! i) (pri @ sec) \<rparr>)"

definition set_observation_times :: "mcmc_fitter_bb \<Rightarrow> arr \<Rightarrow> error + mcmc_fitter_bb" where
  "set_observation_times self obs_times_arg =
     bindE (take_inds obs_times_arg (search_filt_kp self)) (\<lambda>kp_times.
     bindE (take_inds obs_times_arg (search_filt_h self)) (\<lambda>h_times.
     bindE (take_inds obs_times_arg (search_filt_rv self)) (\<lambda>rv_times.
       Inr (self\<lparr> obs_times := obs_times_arg,
                  observation_times := (kp_times, h_times, np_unique rv_times) \<rparr>))))"

definition set_observations :: "mcmc_fitter_bb \<Rightarrow> arr \<Rightarrow> arr \<Rightarrow> error + mcmc_fitter_bb" where
  "set_observations self obs_arg obs_errors_arg =
     bindE (take_inds obs_arg (search_filt_kp self)) (\<lambda>kp_mags.
     bindE (take_inds obs_errors_arg (search_filt_kp self)) (\<lambda>kp_errs.
     bindE (take_inds obs_arg (search_filt_h self)) (\<lambda>h_mags.
     bindE (take_inds obs_errors_arg (search_filt_h self)) (\<lambda>h_errs.
     bindE (take_inds obs_arg (search_filt_rv_pri self)) (\<lambda>rv_pri.
     bindE (take_inds obs_errors_arg (search_filt_rv_pri self)) (\<lambda>rv_pri_errs.
     bindE (take_inds obs_arg (search_filt_rv_sec self)) (\<lambda>rv_sec.
     bindE (take_inds obs_errors_arg (search_filt_rv_sec self)) (\<lambda>rv_sec_errs.
       Inr (self\<lparr> obs := obs_arg, obs_errors := obs_errors_arg,
                  kp_obs_mags := kp_mags, kp_obs_mag_errors := kp_errs,
                  h_obs_mags := h_mags, h_obs_mag_errors := h_errs,
                  obs_rv_pri := rv_pri, obs_rv_pri_errors := rv_pri_errs,
                  obs_rv_sec := rv_sec, obs_rv_sec_errors := rv_sec_errs \<rparr>)))))))))"

text \<open>
  The traversal of \<open>theta\<close>. Each of \<open>lnprior\<close>, \<open>calculate_model_obs\<close> and \<open>lnlike\<close> walks
  \<open>theta\<close> with a running \<open>theta_index\<close>: a quantity that is always free reads
  \<open>theta[theta_index]\<close> and advances the index, a quantity behind a \<open>model_*\<close> toggle does so
  when the toggle is set and takes its default otherwise, and \<open>t0\<close> is read last without
  advancing. The slot of a quantity is the value of \<open>theta_index\<close> at its read
  (\<open>None\<close> when the default is taken).
\<close>

record theta_slots =
  slot_Kp_ext :: nat
  slot_H_ext_mod :: "nat option"
  slot_star1_mass :: "nat option"
  slot_star1_rad :: "nat option"
  slot_star1_teff :: "nat option"
  slot_star2_mass :: "nat option"
  slot_star2_rad :: "nat option"
  slot_star2_teff :: "nat option"
  slot_binary_inc :: nat
  slot_binary_period :: nat
  slot_binary_rv_sys :: nat
  slot_binary_ecc :: "nat option"
  slot_binary_dist :: "nat option"
  slot_t0 :: nat

definition always_slot :: "nat \<Rightarrow> nat \<times> nat" where
  "always_slot theta_index = (theta_index, theta_index + 1)"

definition toggled_slot :: "bool \<Rightarrow> nat \<Rightarrow> nat option \<times> nat" where
  "toggled_slot model_flag theta_index =
     (if model_flag then (Some theta_index, theta_index + 1) else (None, theta_index))"

text \<open>The traversal in \<open>lnprior\<close> (lines 321 to 393).\<close>

definition lnprior_slots :: "mcmc_fitter_bb \<Rightarrow> theta_slots" where
  "lnprior_slots self =
     (let theta_index = 0;
          (s_Kp_ext, theta_index) = always_slot theta_index;
          (s_H_ext_mod, theta_index) = toggled_slot (model_H_ext_mod self) theta_index;
          (s_star1_mass, theta_index) = toggled_slot (model_star1_mass self) theta_index;
          (s_star1_rad, theta_index) = toggled_slot (model_star1_rad self) theta_index;
          (s_star1_teff, theta_index) = toggled_slot (model_star1_teff self) theta_index;
          (s_star2_mass, theta_index) = toggled_slot (model_star2_mass self) theta_index;
          (s_star2_rad, theta_index) = toggled_slot (model_star2_rad self) theta_index;
          (s_star2_teff, theta_index) = toggled_slot (model_star2_teff self) theta_index;
          (s_binary_inc, theta_index) = always_slot theta_index;
          (s_binary_period, theta_index) = always_slot theta_index;
          (s_binary_rv_sys, theta_index) = always_slot theta_index;
          (s_binary_ecc, theta_index) = toggled_slot (model_eccentricity self) theta_index;
          (s_binary_dist, theta_index) = toggled_slot (model_distance self) theta_index;
          s_t0 = theta_index
      in \<lparr> slot_Kp_ext = s_Kp_ext, slot_H_ext_mod = s_H_ext_mod,
           slot_star1_mass = s_star1_mass, slot_star1_rad = s_star1_rad,
           slot_star1_teff = s_star1_teff,
           slot_star2_mass = s_star2_mass, slot_star2_rad = s_star2_rad,
           slot_star2_teff = s_star2_teff,
           slot_binary_inc = s_binary_inc, slot_binary_period = s_binary_period,
           slot_binary_rv_sys = s_binary_rv_sys, slot_binary_ecc = s_binary_ecc,
           slot_binary_dist = s_binary_dist, slot_t0 = s_t0 \<rparr>)"

text \<open>The traversal in \<open>calculate_model_obs\<close> (lines 553 to 625).\<close>

definition calculate_model_obs_slots :: "mcmc_fitter_bb \<Rightarrow> theta_slots" where
  "calculate_model_obs_slots self =
     (let theta_index = 0;
          (s_Kp_ext, theta_index) = always_slot theta_index;
          (s_H_ext_mod, theta_index) = toggled_slot (model_H_ext_mod self) theta_index;
          (s_star1_mass, theta_index) = toggled_slot (model_star1_mass self) theta_index;
          (s_star1_rad, theta_index) = toggled_slot (model_star1_rad self) theta_index;
          (s_star1_teff, theta_index) = toggled_slot (model_star1_teff self) theta_index;
          (s_star2_mass, theta_index) = toggled_slot (model_star2_mass self) theta_index;
          (s_star2_rad, theta_index) = toggled_slot (model_star2_rad self) theta_index;
          (s_star2_teff, theta_index) = toggled_slot (model_star2_teff self) theta_index;
          (s_binary_inc, theta_index) = always_slot theta_index;
          (s_binary_period, theta_index) = always_slot theta_index;
          (s_binary_rv_sys, theta_index) = always_slot theta_index;
          (s_binary_ecc, theta_index) = toggled_slot (model_eccentricity self) theta_index;
          (s_binary_dist, theta_index) = toggled_slot (model_distance self) theta_index;
          s_t0 = theta_index
      in \<lparr> slot_Kp_ext = s_Kp_ext, slot_H_ext_mod = s_H_ext_mod,
           slot_star1_mass = s_star1_mass, slot_star1_rad = s_star1_rad,
           slot_star1_teff = s_star1_teff,
           slot_star2_mass = s_star2_mass, slot_star2_rad = s_star2_rad,
           slot_star2_teff = s_star2_teff,
           slot_binary_inc = s_binary_inc, slot_binary_period = s_binary_period,
           slot_binary_rv_sys = s_binary_rv_sys, slot_binary_ecc = s_binary_ecc,
           slot_binary_dist = s_binary_dist, slot_t0 = s_t0 \<rparr>)"

text \<open>The traversal in \<open>lnlike\<close> (lines 706 to 778).\<close>

definition lnlike_slots :: "mcmc_fitter_bb \<Rightarrow> theta_slots" where
  "lnlike_slots self =
     (let theta_index = 0;
          (s_Kp_ext, theta_index) = always_slot theta_index;
          (s_H_ext_mod, theta_index) = toggled_slot (model_H_ext_mod self) theta_index;
          (s_star1_mass, theta_index) = toggled_slot (model_star1_mass self) theta_index;
          (s_star1_rad, theta_index) = toggled_slot (model_star1_rad self) theta_index;
          (s_star1_teff, theta_index) = toggled_slot (model_star1_teff self) theta_index;
          (s_star2_mass, theta_index) = toggled_slot (model_star2_mass self) theta_index;
          (s_star2_rad, theta_index) = toggled_slot (model_star2_rad self) theta_index;
          (s_star2_teff, theta_index) = toggled_slot (model_star2_teff self) theta_index;
          (s_binary_inc, theta_index) = always_slot theta_index;
          (s_binary_period, theta_index) = always_slot theta_index;
          (s_binary_rv_sys, theta_index) = always_slot theta_index;
          (s_binary_ecc, theta_index) = toggled_slot (model_eccentricity self) theta_index;
          (s_binary_dist, theta_index) = toggled_slot (model_distance self) theta_index;
          s_t0 = theta_index
      in \<lparr> slot_Kp_ext = s_Kp_ext, slot_H_ext_mod = s_H_ext_mod,
           slot_star1_mass = s_star1_mass, slot_star1_rad = s_star1_rad,
           slot_star1_teff = s_star1_teff,
           slot_star2_mass = s_star2_mass, slot_star2_rad = s_star2_rad,
           slot_star2_teff = s_star2_teff,
           slot_binary_inc = s_binary_inc, slot_binary_period = s_binary_period,
           slot_binary_rv_sys = s_binary_rv_sys, slot_binary_ecc = s_binary_ecc,
           slot_binary_dist = s_binary_dist, slot_t0 = s_t0 \<rparr>)"

text \<open>The slots that are read, in the order of the traversal, and their number.\<close>

definition slots_read :: "theta_slots \<Rightarrow> nat list" where
  "slots_read s =
     [slot_Kp_ext s] @ (case slot_H_ext_mod s of None \<Rightarrow> [] | Some i \<Rightarrow> [i])
     @ (case slot_star1_mass s of None \<Rightarrow> [] | Some i \<Rightarrow> [i])
     @ (case slot_star1_rad s of None \<Rightarrow> [] | Some i \<Rightarrow> [i])
     @ (case slot_star1_teff s of None \<Rightarrow> [] | Some i \<Rightarrow> [i])
     @ (case slot_star2_mass s of None \<Rightarrow> [] | Some i \<Rightarrow> [i])
     @ (case slot_star2_rad s of None \<Rightarrow> [] | Some i \<Rightarrow> [i])
     @ (case slot_star2_teff s of None \<Rightarrow> [] | Some i \<Rightarrow> [i])
     @ [slot_binary_inc s, slot_binary_period s, slot_binary_rv_sys s]
     @ (case slot_binary_ecc s of None \<Rightarrow> [] | Some i \<Rightarrow> [i])
     @ (case slot_binary_dist s of None \<Rightarrow> [] | Some i \<Rightarrow> [i])
     @ [slot_t0 s]"

text \<open>
  The values bound by the traversal. \<open>theta[i]\<close> raises \<open>IndexError\<close> when \<open>theta\<close> is too
  short. The field names are the local names of the source with the suffix \<open>_p\<close>.
\<close>

record theta_params =
  Kp_ext_p :: pyfloat
  H_ext_mod_p :: pyfloat
  star1_mass_p :: pyfloat
  star1_rad_p :: pyfloat
  star1_teff_p :: pyfloat
  star2_mass_p :: pyfloat
  star2_rad_p :: pyfloat
  star2_teff_p :: pyfloat
  binary_inc_p :: pyfloat
  binary_period_p :: pyfloat
  binary_rv_sys_p :: pyfloat
  binary_ecc_p :: pyfloat
  binary_dist_p :: pyfloat
  t0_p :: pyfloat

definition theta_at :: "arr \<Rightarrow> nat \<Rightarrow> error + pyfloat" where
  "theta_at theta i = (if i < length theta then Inr (theta ! i) else Inl IndexError)"

definition theta_or :: "arr \<Rightarrow> nat option \<Rightarrow> pyfloat \<Rightarrow> error + pyfloat" where
  "theta_or theta s default_value =
     (case s of Some i \<Rightarrow> theta_at theta i | None \<Rightarrow> Inr default_value)"

definition read_theta :: "mcmc_fitter_bb \<Rightarrow> theta_slots \<Rightarrow> arr \<Rightarrow> error + theta_params" where
  "read_theta self s theta =
     bindE (theta_at theta (slot_Kp_ext s)) (\<lambda>v_Kp_ext.
     bindE (theta_or theta (slot_H_ext_mod s) (default_H_ext_mod self)) (\<lambda>v_H_ext_mod.
     bindE (theta_or theta (slot_star1_mass s) (default_star1_mass self)) (\<lambda>v_star1_mass.
     bindE (theta_or theta (slot_star1_rad s) (default_star1_rad self)) (\<lambda>v_star1_rad.
     bindE (theta_or theta (slot_star1_teff s) (default_star1_teff self)) (\<lambda>v_star1_teff.
     bindE (theta_or theta (slot_star2_mass s) (default_star2_mass self)) (\<lambda>v_star2_mass.
     bindE (theta_or theta (slot_star2_rad s) (default_star2_rad self)) (\<lambda>v_star2_rad.
     bindE (theta_or theta (slot_star2_teff s) (default_star2_teff self)) (\<lambda>v_star2_teff.
     bindE (theta_at theta (slot_binary_inc s)) (\<lambda>v_binary_inc.
     bindE (theta_at theta (slot_binary_period s)) (\<lambda>v_binary_period.
     bindE (theta_at theta (slot_binary_rv_sys s)) (\<lambda>v_binary_rv_sys.
     bindE (theta_or theta (slot_binary_ecc s) (default_ecc self)) (\<lambda>v_binary_ecc.
     bindE (theta_or theta (slot_binary_dist s) (default_dist self)) (\<lambda>v_binary_dist.
     bindE (theta_at theta (slot_t0 s)) (\<lambda>v_t0.
       Inr \<lparr> Kp_ext_p = v_Kp_ext, H_ext_mod_p = v_H_ext_mod,
             star1_mass_p = v_star1_mass, star1_rad_p = v_star1_rad,
             star1_teff_p = v_star1_teff,
             star2_mass_p = v_star2_mass, star2_rad_p = v_star2_rad,
             star2_teff_p = v_star2_teff,
             binary_inc_p = v_binary_inc, binary_period_p = v_binary_period,
             binary_rv_sys_p = v_binary_rv_sys, binary_ecc_p = v_binary_ecc,
             binary_dist_p = v_binary_dist, t0_p = v_t0 \<rparr>))))))))))))))"

text \<open>
  The one-sigma width of the Gaussian prior on the H-band extinction modifier
  (lines 406 to 417): the larger of the two distances between the H extinction that the
  law predicts from \<open>Kp_ext\<close> and the ones predicted with the exponent moved by its
  uncertainty.
\<close>

definition H_ext_mod_bound_oneSig :: "mcmc_fitter_bb \<Rightarrow> pyfloat \<Rightarrow> pyfloat" where
  "H_ext_mod_bound_oneSig self Kp_ext_v =
     (let ratio = fdiv (lambda_filt kp_filt) (lambda_filt h_filt);
          H_ext_v = fmul Kp_ext_v (fpow ratio (ext_alpha self));
          H_ext_mod_bound_hi = fmul Kp_ext_v (fpow ratio (fadd (ext_alpha self) (ext_alpha_unc self)));
          H_ext_mod_bound_lo = fmul Kp_ext_v (fpow ratio (fsub (ext_alpha self) (ext_alpha_unc self)));
          H_ext_mod_bound_hi = fsub H_ext_mod_bound_hi H_ext_v;
          H_ext_mod_bound_lo = fsub H_ext_v H_ext_mod_bound_lo
      in fmax2 (fabs H_ext_mod_bound_hi) (fabs H_ext_mod_bound_lo))"

text \<open>
  The two parts of a Gaussian log-density as \<open>lnprior\<close> computes it:
  \<open>np.log(1.0/(np.sqrt(2*np.pi)*sigma))\<close> and \<open>-0.5 * dev**2 / sigma**2\<close>, and their sum for
  plain numbers.
\<close>

definition gauss_norm :: "pyfloat \<Rightarrow> pyfloat" where
  "gauss_norm sigma = np_log (fdiv (Fin 1) (fmul (np_sqrt (Fin (2 * pi))) sigma))"

definition gauss_exponent :: "pyfloat \<Rightarrow> pyfloat \<Rightarrow> pyfloat" where
  "gauss_exponent sigma dev = fdiv (fmul (Fin (- 0.5)) (fsq dev)) (fsq sigma)"

definition gauss_log_density :: "pyfloat \<Rightarrow> pyfloat \<Rightarrow> pyfloat" where
  "gauss_log_density dev sigma = fadd (gauss_norm sigma) (gauss_exponent sigma dev)"

text \<open>
  A stellar parameter in \<open>lnprior\<close>: the plain number \<open>theta[theta_index]\<close> when its toggle
  is set, the default, a quantity, otherwise.
\<close>

definition star_value :: "bool \<Rightarrow> pyfloat \<Rightarrow> num" where
  "star_value model_flag v = (if model_flag then Plain v else Quantity v)"

text \<open>
  The relational checks: \<open>check = check and (a > b)\<close> when the toggle is set. \<open>and\<close> does
  not evaluate the comparison when \<open>check\<close> is false; the comparison of a quantity with a
  plain number raises.
\<close>

definition relational :: "bool \<Rightarrow> bool \<Rightarrow> num \<Rightarrow> num \<Rightarrow> error + bool" where
  "relational larger_flag check a b =
     (if larger_flag then (if check then num_gt a b else Inr False) else Inr check)"

text \<open>
  The Gaussian prior on the temperature of star 1 (lines 538 to 543):
  \<open>log_prior_add = np.log(...)\<close>, then \<open>log_prior_add += -0.5 * (star1_teff - mu)**2 / sigma**2\<close>,
  then \<open>log_prior += log_prior_add\<close>.
\<close>

definition teff_gauss_add :: "mcmc_fitter_bb \<Rightarrow> num \<Rightarrow> num \<Rightarrow> error + num" where
  "teff_gauss_add self log_prior star1_teff =
     bindE (num_sub star1_teff (Plain (star1_teff_bound_mu self))) (\<lambda>dev.
     bindE (num_add (Plain (gauss_norm (star1_teff_bound_sigma self)))
                    (num_map (gauss_exponent (star1_teff_bound_sigma self)) dev))
       (\<lambda>log_prior_add.
     num_add log_prior log_prior_add))"

text \<open>\<open>lnprior\<close> of the blackbody fitter.\<close>

definition lnprior_bb :: "mcmc_fitter_bb \<Rightarrow> arr \<Rightarrow> error + num" where
  "lnprior_bb self theta =
     bindE (read_theta self (lnprior_slots self) theta) (\<lambda>p.
     let star1_mass = star_value (model_star1_mass self) (star1_mass_p p);
         star1_rad = star_value (model_star1_rad self) (star1_rad_p p);
         star1_teff = star_value (model_star1_teff self) (star1_teff_p p);
         star2_mass = star_value (model_star2_mass self) (star2_mass_p p);
         star2_rad = star_value (model_star2_rad self) (star2_rad_p p);
         star2_teff = star_value (model_star2_teff self) (star2_teff_p p);
         uniform_H_ext_mod = feq (H_ext_mod_alpha_sig_bound self) (Fin (- 1));
         Kp_ext_check =
           in_bound (lo_Kp_ext_prior_bound self) (Kp_ext_p p) (hi_Kp_ext_prior_bound self);
         H_ext_mod_check =
           (if uniform_H_ext_mod
            then in_bound (lo_H_ext_mod_prior_bound self) (H_ext_mod_p p)
                   (hi_H_ext_mod_prior_bound self)
            else True);
         oneSig =
           (if uniform_H_ext_mod then Fin 1 else H_ext_mod_bound_oneSig self (Kp_ext_p p));
         star1_mass_check =
           (if model_star1_mass self
            then in_bound (lo_star1_mass_prior_bound self) (star1_mass_p p)
                   (hi_star1_mass_prior_bound self)
            else True);
         star1_rad_check =
           (if model_star1_rad self
            then in_bound (lo_star1_rad_prior_bound self) (star1_rad_p p)
                   (hi_star1_rad_prior_bound self)
            else True);
         star1_teff_check =
           (if model_star1_teff self \<and> \<not> star1_teff_sig_bound self
            then in_bound (lo_star1_teff_prior_bound self) (star1_teff_p p)
                   (hi_star1_teff_prior_bound self)
            else True);
         star2_mass_check =
           (if model_star2_mass self
            then in_bound (lo_star2_mass_prior_bound self) (star2_mass_p p)
                   (hi_star2_mass_prior_bound self)
            else True);
         star2_rad_check =
           (if model_star2_rad self
            then in_bound (lo_star2_rad_prior_bound self) (star2_rad_p p)
                   (hi_star2_rad_prior_bound self)
            else True);
         star2_teff_check =
           (if model_star2_teff self
            then in_bound (lo_star2_teff_prior_bound self) (star2_teff_p p)
                   (hi_star2_teff_prior_bound self)
            else True)
     in
     bindE (relational (star1_mass_larger self) star1_mass_check star1_mass star2_mass)
       (\<lambda>star1_mass_check.
     bindE (relational (star1_rad_larger self) star1_rad_check star1_rad star2_rad)
       (\<lambda>star1_rad_check.
     bindE (relational (star1_teff_larger self) star1_teff_check star1_teff star2_teff)
       (\<lambda>star1_teff_check.
     bindE (relational (star2_mass_larger self) star2_mass_check star2_mass star1_mass)
       (\<lambda>star2_mass_check.
     bindE (relational (star2_rad_larger self) star2_rad_check star2_rad star1_rad)
       (\<lambda>star2_rad_check.
     bindE (relational (star2_teff_larger self) star2_teff_check star2_teff star1_teff)
       (\<lambda>star2_teff_check.
     let star1_checks = (star1_mass_check \<and> star1_rad_check \<and> star1_teff_check);
         star2_checks = (star2_mass_check \<and> star2_rad_check \<and> star2_teff_check);
         inc_check =
           in_bound (lo_inc_prior_bound self) (binary_inc_p p) (hi_inc_prior_bound self);
         period_check =
           in_bound (lo_period_prior_bound self) (binary_period_p p) (hi_period_prior_bound self);
         rv_sys_check =
           in_bound (lo_rv_sys_prior_bound self) (binary_rv_sys_p p) (hi_rv_sys_prior_bound self);
         ecc_check =
           in_bound (lo_ecc_prior_bound self) (binary_ecc_p p) (hi_ecc_prior_bound self);
         dist_check =
           in_bound (lo_dist_prior_bound self) (binary_dist_p p) (hi_dist_prior_bound self);
         t0_check =
           in_bound (lo_t0_prior_bound self) (t0_p p) (hi_t0_prior_bound self)
     in
     if uniform_H_ext_mod \<and> \<not> star1_teff_sig_bound self then
       (if (Kp_ext_check \<and> H_ext_mod_check)
           \<and> inc_check \<and> period_check \<and> rv_sys_check
           \<and> ecc_check \<and> dist_check \<and> t0_check
           \<and> star1_checks \<and> star2_checks
        then Inr (Plain (Fin 0))
        else Inr (Plain NInf))
     else
       (if Kp_ext_check
           \<and> inc_check \<and> period_check \<and> rv_sys_check
           \<and> ecc_check \<and> dist_check \<and> t0_check
           \<and> star1_checks \<and> star2_checks
        then
          (let log_prior = Plain (Fin 0) in
           bindE (if \<not> uniform_H_ext_mod
                  then num_add log_prior (Plain (gauss_log_density (H_ext_mod_p p) oneSig))
                  else Inr log_prior) (\<lambda>log_prior.
           bindE (if star1_teff_sig_bound self
                  then teff_gauss_add self log_prior star1_teff
                  else Inr log_prior) (\<lambda>log_prior.
           Inr log_prior)))
        else Inr (Plain NInf)))))))))"

text \<open>
  The collaborators of the blackbody fitter: \<open>self.bb_params_obj.calc_stellar_params\<close> and the
  functions of the module \<open>lc_calc_wRV\<close>. A star's full parameters are
  \<open>(mass_init, mass, rad, lum, teff, logg, [mag_Kp, mag_H], [pblum_Kp, pblum_H])\<close>.
\<close>

type_synonym bb_star_params_all =
  "pyfloat \<times> pyfloat \<times> pyfloat \<times> pyfloat \<times> pyfloat \<times> pyfloat
     \<times> (pyfloat \<times> pyfloat) \<times> (pyfloat \<times> pyfloat)"

record lc_calc_wRV =
  calc_stellar_params ::
    "pyfloat \<Rightarrow> pyfloat \<Rightarrow> pyfloat \<Rightarrow> bb_star_params_all \<times> star_params_lcfit"
  binary_star_lc_wRV ::
    "star_params_lcfit \<Rightarrow> star_params_lcfit \<Rightarrow> binary_params \<Rightarrow> arr \<times> arr \<times> arr
       \<Rightarrow> bool \<Rightarrow> bool \<Rightarrow> pyfloat \<Rightarrow> nat \<Rightarrow> (arr \<times> arr) \<times> vel \<times> vel"
  dist_ext_mag_calc_wRV :: "arr \<times> arr \<Rightarrow> pyfloat \<Rightarrow> pyfloat \<times> pyfloat \<Rightarrow> arr \<times> arr"
  phased_obs_wRV :: "arr \<times> arr \<times> arr \<Rightarrow> pyfloat \<Rightarrow> pyfloat \<Rightarrow> phase_out \<times> phase_out \<times> phase_out"

text \<open>\<open>self.filts_ext[f]\<close>: a filter that was not in \<open>filts_list\<close> raises \<open>KeyError\<close>.\<close>

definition filts_ext_at :: "mcmc_fitter_bb \<Rightarrow> filt \<Rightarrow> error + pyfloat" where
  "filts_ext_at self f = (case filts_ext self f of None \<Rightarrow> Inl KeyError | Some v \<Rightarrow> Inr v)"

text \<open>\<open>err_out\<close> of \<open>calculate_model_obs\<close>: four plain arrays.\<close>

definition err_out_obs :: "arr \<times> arr \<times> vel \<times> vel" where
  "err_out_obs = ([Fin (- 1)], [Fin (- 1)], Unitless [Fin (- 1)], Unitless [Fin (- 1)])"

text \<open>
  The distance modulus adjustment \<open>5. * np.log10(binary_dist / self.dist.to(u.pc).value)\<close>
  (line 643). When the distance is modelled, \<open>binary_dist\<close> is \<open>theta[theta_index] * u.pc\<close>,
  the quotient is a quantity in parsec, and \<open>np.log10\<close> raises \<open>UnitTypeError\<close>, whatever
  the value. Otherwise \<open>binary_dist\<close> is the plain number \<open>default_dist\<close>.
\<close>

definition dist_mod_mag_adj_calc :: "mcmc_fitter_bb \<Rightarrow> pyfloat \<Rightarrow> error + pyfloat" where
  "dist_mod_mag_adj_calc self binary_dist =
     (if model_distance self then Inl UnitTypeError
      else Inr (fmul (Fin 5) (np_log10 (fdiv binary_dist (dist self)))))"

text \<open>\<open>calculate_model_obs\<close> of the blackbody fitter.\<close>

definition calculate_model_obs ::
    "mcmc_fitter_bb \<Rightarrow> lc_calc_wRV \<Rightarrow> arr \<Rightarrow> (arr \<times> arr \<times> vel \<times> vel) run" where
  "calculate_model_obs self env theta =
     bindR (callR Ev_calculate_model_obs ()) (\<lambda>_.
     bindR (liftR (read_theta self (calculate_model_obs_slots self) theta)) (\<lambda>p.
     let binary_params = (binary_period_p p, binary_ecc_p p, binary_inc_p p, t0_p p) in
     bindR (liftR (filts_ext_at self kp_filt)) (\<lambda>kp_filt_ext.
     let Kp_ext_adj = fsub (Kp_ext_p p) kp_filt_ext in
     bindR (liftR (filts_ext_at self h_filt)) (\<lambda>h_filt_ext.
     let H_ext_adj =
           fadd (fsub (fmul (Kp_ext_p p)
                         (fpow (fdiv (lambda_filt kp_filt) (lambda_filt h_filt)) (ext_alpha self)))
                      h_filt_ext)
                (H_ext_mod_p p)
     in
     bindR (liftR (dist_mod_mag_adj_calc self (binary_dist_p p))) (\<lambda>dist_mod_mag_adj.
     bindR (callR Ev_calc_stellar_params
              (calc_stellar_params env (star1_mass_p p) (star1_rad_p p) (star1_teff_p p)))
       (\<lambda>(star1_params_all, star1_params_lcfit).
     bindR (callR Ev_calc_stellar_params
              (calc_stellar_params env (star2_mass_p p) (star2_rad_p p) (star2_teff_p p)))
       (\<lambda>(star2_params_all, star2_params_lcfit).
     bindR (callR Ev_binary_star_lc
              (binary_star_lc_wRV env star1_params_lcfit star2_params_lcfit binary_params
                 (observation_times self) (use_blackbody_atm self) (model_compact self)
                 (irrad_frac_refl self) (model_numTriangles self)))
       (\<lambda>((binary_mags_Kp, binary_mags_H), binary_RVs_pri, binary_RVs_sec).
     bindR (liftR (either_sentinel binary_mags_Kp binary_mags_H)) (\<lambda>binary_failed.
     if binary_failed then returnR err_out_obs else
     bindR (callR Ev_dist_ext_mag_calc
              (dist_ext_mag_calc_wRV env (binary_mags_Kp, binary_mags_H) (dist self)
                 (kp_filt_ext, h_filt_ext)))
       (\<lambda>(binary_mags_Kp, binary_mags_H).
     bindR (liftR (vel_add_sys binary_RVs_pri (binary_rv_sys_p p))) (\<lambda>binary_RVs_pri.
     bindR (liftR (vel_add_sys binary_RVs_sec (binary_rv_sys_p p))) (\<lambda>binary_RVs_sec.
     returnR (map (\<lambda>m. fadd (fadd m Kp_ext_adj) dist_mod_mag_adj) binary_mags_Kp,
              map (\<lambda>m. fadd (fadd m H_ext_adj) dist_mod_mag_adj) binary_mags_H,
              binary_RVs_pri, binary_RVs_sec)))))))))))))"

text \<open>
  The array under \<open>np.sum\<close> in a radial-velocity term of the likelihood (lines 820 to 828
  for the primary, 831 to 839 for the secondary): the role's observations and
  uncertainties are reordered by the role's index set, the positions of the observations
  that are not \<open>nan\<close> are kept, and observations, model and uncertainties are compared at
  those positions.
\<close>

definition rv_terms :: "arr \<Rightarrow> arr \<Rightarrow> nat list \<Rightarrow> vel \<Rightarrow> error + arr" where
  "rv_terms obs_rv obs_rv_errors phases_sorted_inds binary_model_RVs =
     bindE (take_inds obs_rv phases_sorted_inds) (\<lambda>obs_rv_sorted.
     bindE (take_inds obs_rv_errors phases_sorted_inds) (\<lambda>obs_rv_errors_sorted.
     let nan_filt = where_not_nan obs_rv_sorted in
     bindE (take_inds obs_rv_sorted nan_filt) (\<lambda>obs_kept.
     bindE (take_inds (vel_values binary_model_RVs) nan_filt) (\<lambda>model_kept.
     bindE (vel_resid obs_kept binary_model_RVs model_kept) (\<lambda>resid.
     bindE (take_inds obs_rv_errors_sorted nan_filt) (\<lambda>errors_kept.
       elementwise fdiv (map fsq resid) (map fsq errors_kept)))))))"

text \<open>
  \<open>lnlike\<close> of the blackbody fitter. \<open>np.where\<close> returns a tuple holding one index array, so
  \<open>pri_filt\<close> and \<open>sec_filt\<close> are one-element sequences and \<open>len(pri_filt) > 0\<close> tests that
  length. Both roles' names for the phase output are bound to \<open>rv_phase_out\<close>.
\<close>

definition lnlike_bb :: "mcmc_fitter_bb \<Rightarrow> lc_calc_wRV \<Rightarrow> arr \<Rightarrow> pyfloat run" where
  "lnlike_bb self env theta =
     bindR (callR Ev_lnlike ()) (\<lambda>_.
     bindR (liftR (read_theta self (lnlike_slots self) theta)) (\<lambda>p.
     bindR (calculate_model_obs self env theta)
       (\<lambda>(binary_model_mags_Kp, binary_model_mags_H, binary_model_RVs_pri, binary_model_RVs_sec).
     bindR (liftR (either_sentinel binary_model_mags_Kp binary_model_mags_H)) (\<lambda>model_failed.
     if model_failed then returnR NInf else
     bindR (callR Ev_phased_obs
              (phased_obs_wRV env (observation_times self) (binary_period_p p) (t0_p p)))
       (\<lambda>(kp_phase_out, h_phase_out, rv_phase_out).
     case kp_phase_out of (kp_phased_days, kp_phases_sorted_inds, kp_model_times) \<Rightarrow>
     case h_phase_out of (h_phased_days, h_phases_sorted_inds, h_model_times) \<Rightarrow>
     case rv_phase_out of (rv_pri_phased_days, rv_pri_phases_sorted_inds, rv_pri_model_times) \<Rightarrow>
     case rv_phase_out of (rv_sec_phased_days, rv_sec_phases_sorted_inds, rv_sec_model_times) \<Rightarrow>
     bindR (liftR (chi_terms (kp_obs_mags self) kp_phases_sorted_inds binary_model_mags_Kp
                     (kp_obs_mag_errors self))) (\<lambda>kp_terms.
     bindR (callR Ev_np_sum (np_sum kp_terms)) (\<lambda>log_likelihood.
     bindR (liftR (chi_terms (h_obs_mags self) h_phases_sorted_inds binary_model_mags_H
                     (h_obs_mag_errors self))) (\<lambda>h_terms.
     bindR (callR Ev_np_sum (np_sum h_terms)) (\<lambda>h_sum.
     let log_likelihood = fadd log_likelihood h_sum;
         pri_filt = [where_eq (obs_filts_rv self) ''rv_pri''];
         sec_filt = [where_eq (obs_filts_rv self) ''rv_sec'']
     in
     bindR (if length pri_filt > 0
            then bindR (liftR (rv_terms (obs_rv_pri self) (obs_rv_pri_errors self)
                                 rv_pri_phases_sorted_inds binary_model_RVs_pri)) (\<lambda>pri_terms.
                 bindR (callR Ev_np_sum (np_sum pri_terms)) (\<lambda>pri_sum.
                 returnR (fadd log_likelihood pri_sum)))
            else returnR log_likelihood) (\<lambda>log_likelihood.
     bindR (if length sec_filt > 0
            then bindR (liftR (rv_terms (obs_rv_sec self) (obs_rv_sec_errors self)
                                 rv_sec_phases_sorted_inds binary_model_RVs_sec)) (\<lambda>sec_terms.
                 bindR (callR Ev_np_sum (np_sum sec_terms)) (\<lambda>sec_sum.
                 returnR (fadd log_likelihood sec_sum)))
            else returnR log_likelihood) (\<lambda>log_likelihood.
     returnR (fmul (Fin (- 0.5)) log_likelihood))))))))))))"

text \<open>\<open>lnprob\<close> of the blackbody fitter.\<close>

definition lnprob_bb :: "mcmc_fitter_bb \<Rightarrow> lc_calc_wRV \<Rightarrow> arr \<Rightarrow> num run" where
  "lnprob_bb self env theta =
     bindR (liftR (lnprior_bb self theta)) (\<lambda>lp.
     if \<not> isfinite (value_of lp) then returnR (Plain NInf)
     else bindR (lnlike_bb self env theta) (\<lambda>ll.
          if \<not> isfinite ll then returnR (Plain NInf)
          else liftR (num_add lp (Plain ll))))"

text \<open>The class attributes of \<open>mcmc_fitter_bb\<close>, with no filters and no observations set.\<close>

definition bb_defaults :: mcmc_fitter_bb where
  "bb_defaults =
     \<lparr> ext_alpha = Fin 2.30, use_blackbody_atm = True, model_numTriangles = 1500,
       model_eccentricity = True,
       lo_Kp_ext_prior_bound = Fin 2, hi_Kp_ext_prior_bound = Fin 4,
       lo_H_ext_mod_prior_bound = Fin (- 2), hi_H_ext_mod_prior_bound = Fin 2,
       lo_inc_prior_bound = Fin 0, hi_inc_prior_bound = Fin 180,
       lo_period_prior_bound = Fin 79, hi_period_prior_bound = Fin 81,
       lo_ecc_prior_bound = Fin (- 0.1), hi_ecc_prior_bound = Fin 0.1,
       lo_t0_prior_bound = Fin 51773, hi_t0_prior_bound = Fin 51774,
       Ks_ext = Fin 0, dist = Fin 7971,
       kp_obs_mags = [], kp_obs_mag_errors = [], h_obs_mags = [], h_obs_mag_errors = [],
       lambda_Ks = Fin 0.00000218, ext_alpha_unc = Fin 0.08, irrad_frac_refl = Fin 0.6,
       default_H_ext_mod = Fin 0, model_H_ext_mod = True,
       default_ecc = Fin 0, default_dist = Fin 7971, model_distance = True,
       default_system_RV = Fin 0, model_system_RV = True,
       model_star1_mass = True, default_star1_mass = Fin 10,
       model_star1_rad = True, default_star1_rad = Fin 10,
       model_star1_teff = True, default_star1_teff = Fin 8000,
       model_star2_mass = True, default_star2_mass = Fin 10,
       model_star2_rad = True, default_star2_rad = Fin 10,
       model_star2_teff = True, default_star2_teff = Fin 8000,
       model_compact = True,
       star1_mass_larger = False, star1_rad_larger = False, star1_teff_larger = False,
       star2_mass_larger = False, star2_rad_larger = False, star2_teff_larger = False,
       H_ext_mod_alpha_sig_bound = Fin (- 1),
       lo_star1_mass_prior_bound = Fin 0.1, hi_star1_mass_prior_bound = Fin 20,
       lo_star1_rad_prior_bound = Fin 0.1, hi_star1_rad_prior_bound = Fin 100,
       lo_star1_teff_prior_bound = Fin 5000, hi_star1_teff_prior_bound = Fin 50000,
       star1_teff_sig_bound = False, star1_teff_bound_mu = Fin 10000,
       star1_teff_bound_sigma = Fin 1000,
       lo_star2_mass_prior_bound = Fin 0.1, hi_star2_mass_prior_bound = Fin 20,
       lo_star2_rad_prior_bound = Fin 0.1, hi_star2_rad_prior_bound = Fin 100,
       lo_star2_teff_prior_bound = Fin 5000, hi_star2_teff_prior_bound = Fin 50000,
       lo_rv_sys_prior_bound = Fin (- 500), hi_rv_sys_prior_bound = Fin 500,
       lo_dist_prior_bound = Fin 7600, hi_dist_prior_bound = Fin 8200,
       filts_list = [], num_filts = 0, filts_ext = Map.empty,
       obs_filts = [], search_filt_kp = [], search_filt_h = [],
       search_filt_rv_pri = [], search_filt_rv_sec = [], search_filt_rv = [],
       obs_filts_rv = [], obs_times = [], observation_times = ([], [], []),
       obs = [], obs_errors = [],
       obs_rv_pri = [], obs_rv_pri_errors = [], obs_rv_sec = [], obs_rv_sec_errors = [] \<rparr>"

section \<open>The statements of the specification\<close>




text \<open>
  The failure signal as \<open>calculate_model_lc\<close>, \<open>calculate_model_obs\<close> and \<open>lnlike\<close> test it:
  the first element of the Kp array is \<open>-1.0\<close>, or the Kp array has a first element and
  the first element of the H array is \<open>-1.0\<close>.
\<close>

definition signals_failure :: "arr \<Rightarrow> arr \<Rightarrow> bool" where
  "signals_failure mags_Kp mags_H =
     (mags_Kp \<noteq> [] \<and> (hd mags_Kp = Fin (- 1) \<or> (mags_H \<noteq> [] \<and> hd mags_H = Fin (- 1))))"

text \<open>
  The hypotheses of the prior's contract for the blackbody fitter. A component is free
  when it is read from \<open>theta\<close>; it is subject to a uniform bound unless its prior is
  Gaussian (the H-band modifier when \<open>H_ext_mod_alpha_sig_bound\<close> is not \<open>-1.0\<close>, the
  temperature of star 1 when \<open>star1_teff_sig_bound\<close> is set).
\<close>

definition free_in_bounds :: "mcmc_fitter_bb \<Rightarrow> theta_params \<Rightarrow> bool" where
  "free_in_bounds self p =
     (in_bound (lo_Kp_ext_prior_bound self) (Kp_ext_p p) (hi_Kp_ext_prior_bound self)
      \<and> (model_H_ext_mod self \<and> feq (H_ext_mod_alpha_sig_bound self) (Fin (- 1)) \<longrightarrow>
           in_bound (lo_H_ext_mod_prior_bound self) (H_ext_mod_p p) (hi_H_ext_mod_prior_bound self))
      \<and> (model_star1_mass self \<longrightarrow>
           in_bound (lo_star1_mass_prior_bound self) (star1_mass_p p) (hi_star1_mass_prior_bound self))
      \<and> (model_star1_rad self \<longrightarrow>
           in_bound (lo_star1_rad_prior_bound self) (star1_rad_p p) (hi_star1_rad_prior_bound self))
      \<and> (model_star1_teff self \<and> \<not> star1_teff_sig_bound self \<longrightarrow>
           in_bound (lo_star1_teff_prior_bound self) (star1_teff_p p) (hi_star1_teff_prior_bound self))
      \<and> (model_star2_mass self \<longrightarrow>
           in_bound (lo_star2_mass_prior_bound self) (star2_mass_p p) (hi_star2_mass_prior_bound self))
      \<and> (model_star2_rad self \<longrightarrow>
           in_bound (lo_star2_rad_prior_bound self) (star2_rad_p p) (hi_star2_rad_prior_bound self))
      \<and> (model_star2_teff self \<longrightarrow>
           in_bound (lo_star2_teff_prior_bound self) (star2_teff_p p) (hi_star2_teff_prior_bound self))
      \<and> in_bound (lo_inc_prior_bound self) (binary_inc_p p) (hi_inc_prior_bound self)
      \<and> in_bound (lo_period_prior_bound self) (binary_period_p p) (hi_period_prior_bound self)
      \<and> in_bound (lo_rv_sys_prior_bound self) (binary_rv_sys_p p) (hi_rv_sys_prior_bound self)
      \<and> (model_eccentricity self \<longrightarrow>
           in_bound (lo_ecc_prior_bound self) (binary_ecc_p p) (hi_ecc_prior_bound self))
      \<and> (model_distance self \<longrightarrow>
           in_bound (lo_dist_prior_bound self) (binary_dist_p p) (hi_dist_prior_bound self))
      \<and> in_bound (lo_t0_prior_bound self) (t0_p p) (hi_t0_prior_bound self))"

text \<open>
  The defaults that \<open>lnprior\<close> checks against a bound although they are not free: the
  H-band modifier, the eccentricity and the distance.
\<close>

definition fixed_in_bounds :: "mcmc_fitter_bb \<Rightarrow> bool" where
  "fixed_in_bounds self =
     ((\<not> model_H_ext_mod self \<and> feq (H_ext_mod_alpha_sig_bound self) (Fin (- 1)) \<longrightarrow>
         in_bound (lo_H_ext_mod_prior_bound self) (default_H_ext_mod self)
           (hi_H_ext_mod_prior_bound self))
      \<and> (\<not> model_eccentricity self \<longrightarrow>
           in_bound (lo_ecc_prior_bound self) (default_ecc self) (hi_ecc_prior_bound self))
      \<and> (\<not> model_distance self \<longrightarrow>
           in_bound (lo_dist_prior_bound self) (default_dist self) (hi_dist_prior_bound self)))"

definition ordering_checks_pass :: "mcmc_fitter_bb \<Rightarrow> theta_params \<Rightarrow> bool" where
  "ordering_checks_pass self p =
     ((star1_mass_larger self \<longrightarrow> fgt (star1_mass_p p) (star2_mass_p p))
      \<and> (star1_rad_larger self \<longrightarrow> fgt (star1_rad_p p) (star2_rad_p p))
      \<and> (star1_teff_larger self \<longrightarrow> fgt (star1_teff_p p) (star2_teff_p p))
      \<and> (star2_mass_larger self \<longrightarrow> fgt (star2_mass_p p) (star1_mass_p p))
      \<and> (star2_rad_larger self \<longrightarrow> fgt (star2_rad_p p) (star1_rad_p p))
      \<and> (star2_teff_larger self \<longrightarrow> fgt (star2_teff_p p) (star1_teff_p p)))"

text \<open>
  The prior modes: uniform when neither Gaussian prior is configured.
\<close>

definition uniform_mode :: "mcmc_fitter_bb \<Rightarrow> bool" where
  "uniform_mode self =
     (feq (H_ext_mod_alpha_sig_bound self) (Fin (- 1)) \<and> \<not> star1_teff_sig_bound self)"

text \<open>
  The Gaussian priors are well-formed when their widths are finite and positive and the
  deviations they score are finite.
\<close>

definition gaussian_widths_ok :: "mcmc_fitter_bb \<Rightarrow> theta_params \<Rightarrow> bool" where
  "gaussian_widths_ok self p =
     ((\<not> feq (H_ext_mod_alpha_sig_bound self) (Fin (- 1)) \<longrightarrow>
         isfinite (H_ext_mod_p p)
         \<and> isfinite (H_ext_mod_bound_oneSig self (Kp_ext_p p))
         \<and> flt (Fin 0) (H_ext_mod_bound_oneSig self (Kp_ext_p p)))
      \<and> (star1_teff_sig_bound self \<longrightarrow>
           isfinite (star1_teff_p p) \<and> isfinite (star1_teff_bound_mu self)
           \<and> isfinite (star1_teff_bound_sigma self)
           \<and> flt (Fin 0) (star1_teff_bound_sigma self)))"

text \<open>
  A free component that \<open>lnprior\<close> gates with a uniform bound lies outside that bound. The
  H-band modifier counts when the final test of \<open>lnprior\<close> includes its check, that is, in
  uniform mode.
\<close>

definition free_out_of_bounds :: "mcmc_fitter_bb \<Rightarrow> theta_params \<Rightarrow> bool" where
  "free_out_of_bounds self p =
     (\<not> in_bound (lo_Kp_ext_prior_bound self) (Kp_ext_p p) (hi_Kp_ext_prior_bound self)
      \<or> (model_H_ext_mod self \<and> uniform_mode self \<and>
          \<not> in_bound (lo_H_ext_mod_prior_bound self) (H_ext_mod_p p) (hi_H_ext_mod_prior_bound self))
      \<or> (model_star1_mass self \<and>
          \<not> in_bound (lo_star1_mass_prior_bound self) (star1_mass_p p) (hi_star1_mass_prior_bound self))
      \<or> (model_star1_rad self \<and>
          \<not> in_bound (lo_star1_rad_prior_bound self) (star1_rad_p p) (hi_star1_rad_prior_bound self))
      \<or> (model_star1_teff self \<and> \<not> star1_teff_sig_bound self \<and>
          \<not> in_bound (lo_star1_teff_prior_bound self) (star1_teff_p p) (hi_star1_teff_prior_bound self))
      \<or> (model_star2_mass self \<and>
          \<not> in_bound (lo_star2_mass_prior_bound self) (star2_mass_p p) (hi_star2_mass_prior_bound self))
      \<or> (model_star2_rad self \<and>
          \<not> in_bound (lo_star2_rad_prior_bound self) (star2_rad_p p) (hi_star2_rad_prior_bound self))
      \<or> (model_star2_teff self \<and>
          \<not> in_bound (lo_star2_teff_prior_bound self) (star2_teff_p p) (hi_star2_teff_prior_bound self))
      \<or> \<not> in_bound (lo_inc_prior_bound self) (binary_inc_p p) (hi_inc_prior_bound self)
      \<or> \<not> in_bound (lo_period_prior_bound self) (binary_period_p p) (hi_period_prior_bound self)
      \<or> \<not> in_bound (lo_rv_sys_prior_bound self) (binary_rv_sys_p p) (hi_rv_sys_prior_bound self)
      \<or> (model_eccentricity self \<and>
          \<not> in_bound (lo_ecc_prior_bound self) (binary_ecc_p p) (hi_ecc_prior_bound self))
      \<or> (model_distance self \<and>
          \<not> in_bound (lo_dist_prior_bound self) (binary_dist_p p) (hi_dist_prior_bound self))
      \<or> \<not> in_bound (lo_t0_prior_bound self) (t0_p p) (hi_t0_prior_bound self))"

section \<open>Example collaborators and fitters\<close>

text \<open>
  The phase fold of \<open>phased_obs\<close> (phitter/mesh_animate.py, lines 522 to 543) for one band:
  \<open>phased_days = ((MJDs - t0) % period) / period\<close>, the indices that sort the phases, and
  the model times in that order. \<open>fmod\<close> is the remainder of finite operands with the sign
  of the divisor; \<open>argsort\<close> is a stable insertion sort of the indices that puts \<open>nan\<close>
  last, as \<open>np.argsort\<close> does.
\<close>

definition fmod :: "pyfloat \<Rightarrow> pyfloat \<Rightarrow> pyfloat" where
  "fmod a b =
     (case (a, b) of
        (Fin x, Fin p) \<Rightarrow> (if p \<noteq> 0 then Fin (x - p * of_int \<lfloor>x / p\<rfloor>) else NaN)
      | _ \<Rightarrow> NaN)"

fun insert_ind :: "arr \<Rightarrow> nat \<Rightarrow> nat list \<Rightarrow> nat list" where
  "insert_ind a i [] = [i]"
| "insert_ind a i (j # js) =
     (if fle (a ! i) (a ! j) \<or> isnan (a ! j) then i # j # js else j # insert_ind a i js)"

definition argsort :: "arr \<Rightarrow> nat list" where
  "argsort a = foldr (insert_ind a) [0..<length a] []"

definition phase_fold :: "arr \<Rightarrow> pyfloat \<Rightarrow> pyfloat \<Rightarrow> phase_out" where
  "phase_fold MJDs binary_period t0 =
     (let phased_days = map (\<lambda>t. fdiv (fmod (fsub t t0) binary_period) binary_period) MJDs;
          phases_sorted_inds = argsort phased_days;
          model_times = map (\<lambda>i. fmul (phased_days ! i) binary_period) phases_sorted_inds
      in (phased_days, phases_sorted_inds, model_times))"

text \<open>
  Collaborators for the radius-interpolation fitter: every star has the isochrone
  magnitudes \<open>(10, 11)\<close>, a single star has the model magnitudes \<open>(10, 11)\<close>, the binary
  has the constant light curves \<open>12\<close> (Kp) and \<open>13\<close> (H), the distance and flux corrections
  leave the magnitudes as they are, and the observations are folded as above.
  \<open>lc_calc_failing\<close> is the same collaborator whose single-star model fails for the stars
  in \<open>bad_stars\<close> and whose binary model fails when \<open>binary_bad\<close> is set.
\<close>

definition lc_calc_example :: lc_calc where
  "lc_calc_example =
     \<lparr> rad_interp = (\<lambda>r. ((r, r, r, Fin 1, Fin 8000, Fin 10, Fin 11), [r])),
       single_star_lc = (\<lambda>star bb_atm n. ([Fin 10], [Fin 11])),
       dist_ext_mag_calc = (\<lambda>mags d kp h. mags),
       binary_star_lc = (\<lambda>star1 star2 bp obs_t bb_atm n.
          (map (\<lambda>t. Fin 12) (fst obs_t), map (\<lambda>t. Fin 13) (snd obs_t))),
       flux_adj = (\<lambda>mags_pri ref_pri mags_sec ref_sec mags_bin. mags_bin),
       phased_obs = (\<lambda>obs_t period t0.
          (phase_fold (fst obs_t) period t0, phase_fold (snd obs_t) period t0)) \<rparr>"

definition lc_calc_failing :: "star_params_lcfit list \<Rightarrow> bool \<Rightarrow> lc_calc" where
  "lc_calc_failing bad_stars binary_bad =
     lc_calc_example
       \<lparr> single_star_lc :=
           (\<lambda>star bb_atm n. if star \<in> set bad_stars then err_out else ([Fin 10], [Fin 11])),
         binary_star_lc :=
           (\<lambda>star1 star2 bp obs_t bb_atm n.
              if binary_bad then err_out
              else (map (\<lambda>t. Fin 12) (fst obs_t), map (\<lambda>t. Fin 13) (snd obs_t))) \<rparr>"

text \<open>
  A radius-interpolation fitter with one Kp and one H observation; the Kp magnitude is a
  parameter. The isochrone was made without extinction, and the lower bound of the Kp
  extinction is set to \<open>0\<close>.
\<close>

definition rad_interp_example :: "pyfloat \<Rightarrow> mcmc_fitter_rad_interp" where
  "rad_interp_example kp_mag =
     rad_interp_defaults
       \<lparr> lo_Kp_ext_prior_bound := Fin 0, Ks_ext := Fin 0, Kp_ext := Fin 0, H_ext := Fin 0,
         Kp_observation_times := [Fin 51774], H_observation_times := [Fin 51775],
         kp_obs_mags := [kp_mag], kp_obs_mag_errors := [Fin 0.1],
         h_obs_mags := [Fin 13], h_obs_mag_errors := [Fin 0.1] \<rparr>"

definition theta_example :: arr where
  "theta_example = [Fin 0, Fin 0, Fin 20, Fin 10, Fin 90, Fin 80, Fin 0, Fin 51773.5]"

text \<open>
  Collaborators for the blackbody fitter: constant light curves \<open>12\<close> (Kp) and \<open>13\<close> (H),
  radial-velocity curves \<open>t - 51676\<close> (primary) and \<open>51676 - t\<close> (secondary) in \<open>km/s\<close> at the
  model times handed over, a distance correction that leaves the magnitudes as they are,
  and the fold above for each of the three sets of times. \<open>lc_calc_wRV_sentinel\<close> is the
  same collaborator whose binary model returns the sentinel in the magnitude arrays (when
  \<open>mags_bad\<close>) and the array \<open>rvs_out\<close>, when one is given, as both radial-velocity arrays.
\<close>

definition lc_calc_wRV_example :: lc_calc_wRV where
  "lc_calc_wRV_example =
     \<lparr> calc_stellar_params =
         (\<lambda>m r t. ((m, m, r, Fin 1, t, Fin 4, (Fin 10, Fin 11), (Fin 1, Fin 1)), [m, r, t])),
       binary_star_lc_wRV = (\<lambda>star1 star2 bp obs_t bb_atm compact refl n.
          case obs_t of (kp_t, h_t, rv_t) \<Rightarrow>
            ((map (\<lambda>t. Fin 12) kp_t, map (\<lambda>t. Fin 13) h_t),
             Kms (map (\<lambda>t. fsub t (Fin 51676)) rv_t),
             Kms (map (\<lambda>t. fsub (Fin 51676) t) rv_t))),
       dist_ext_mag_calc_wRV = (\<lambda>mags d exts. mags),
       phased_obs_wRV = (\<lambda>obs_t period t0.
          case obs_t of (kp_t, h_t, rv_t) \<Rightarrow>
            (phase_fold kp_t period t0, phase_fold h_t period t0, phase_fold rv_t period t0)) \<rparr>"

definition lc_calc_wRV_sentinel :: "bool \<Rightarrow> vel option \<Rightarrow> lc_calc_wRV" where
  "lc_calc_wRV_sentinel mags_bad rvs_out =
     lc_calc_wRV_example
       \<lparr> binary_star_lc_wRV := (\<lambda>star1 star2 bp obs_t bb_atm compact refl n.
            case obs_t of (kp_t, h_t, rv_t) \<Rightarrow>
              ((if mags_bad then ([Fin (- 1)], [Fin (- 1)])
                else (map (\<lambda>t. Fin 12) kp_t, map (\<lambda>t. Fin 13) h_t)),
               (case rvs_out of Some v \<Rightarrow> v
                | None \<Rightarrow> Kms (map (\<lambda>t. fsub t (Fin 51676)) rv_t)),
               (case rvs_out of Some v \<Rightarrow> v
                | None \<Rightarrow> Kms (map (\<lambda>t. fsub (Fin 51676) t) rv_t)))) \<rparr>"

text \<open>
  A blackbody fitter set up through the setters: the distance is not modelled
  (\<open>model_distance = False\<close>), blackbody parameters without extinction at \<open>8000 pc\<close> for the
  filters Kp and H, the lower bound of the Kp extinction set to \<open>0\<close>, and the observations
  given.
\<close>

definition bb_setup :: "string list \<Rightarrow> arr \<Rightarrow> arr \<Rightarrow> arr \<Rightarrow> error + mcmc_fitter_bb" where
  "bb_setup filts tms vals errs =
     bindE (set_observation_times
              (set_observation_filts
                 (make_bb_params
                    (bb_defaults\<lparr> lo_Kp_ext_prior_bound := Fin 0, model_distance := False \<rparr>)
                    (Fin 0) (Fin 8000) [kp_filt, h_filt])
                 filts)
              tms)
       (\<lambda>self. set_observations self vals errs)"

text \<open>
  One Kp observation, one H observation, and a primary and a secondary radial velocity
  at each of the times \<open>51776\<close> and \<open>51777\<close>; the observed values are a parameter.
\<close>

definition bb_example :: "arr \<Rightarrow> mcmc_fitter_bb" where
  "bb_example vals =
     (case bb_setup [''kp'', ''h'', ''rv_pri'', ''rv_pri'', ''rv_sec'', ''rv_sec'']
             [Fin 51774, Fin 51775, Fin 51776, Fin 51777, Fin 51776, Fin 51777]
             vals [Fin 0.1, Fin 0.1, Fin 5, Fin 5, Fin 5, Fin 5] of
        Inr self \<Rightarrow> self
      | Inl e \<Rightarrow> bb_defaults)"

text \<open>
  The same observations with the two secondary radial velocities stored in the other
  order (the one of time \<open>51777\<close> first).
\<close>

definition bb_unaligned :: mcmc_fitter_bb where
  "bb_unaligned =
     (case bb_setup [''kp'', ''h'', ''rv_pri'', ''rv_pri'', ''rv_sec'', ''rv_sec'']
             [Fin 51774, Fin 51775, Fin 51776, Fin 51777, Fin 51777, Fin 51776]
             [Fin 12, Fin 13, Fin 100, Fin 101, Fin (- 101), Fin (- 100)]
             [Fin 0.1, Fin 0.1, Fin 5, Fin 5, Fin 5, Fin 5] of
        Inr self \<Rightarrow> self
      | Inl e \<Rightarrow> bb_defaults)"

definition obs_matching :: arr where
  "obs_matching = [Fin 12, Fin 13, Fin 100, Fin 101, Fin (- 100), Fin (- 101)]"

definition obs_kp_nan :: arr where
  "obs_kp_nan = [NaN, Fin 13, Fin 100, Fin 101, Fin (- 100), Fin (- 101)]"

definition obs_rv_nan :: arr where
  "obs_rv_nan = [Fin 12, Fin 13, Fin 100, NaN, NaN, Fin (- 106)]"

definition theta_bb_example :: arr where
  "theta_bb_example =
     [Fin 0, Fin 0, Fin 10, Fin 10, Fin 8000, Fin 10, Fin 10, Fin 8000,
      Fin 90, Fin 80, Fin 0, Fin 0, Fin 51773.5]"

text \<open>
  The events that the forward-model adapters and their collaborators log.
\<close>

definition adapter_events :: "event set" where
  "adapter_events = {Ev_calculate_model_lc, Ev_calculate_model_obs, Ev_rad_interp,
     Ev_calc_stellar_params, Ev_single_star_lc, Ev_binary_star_lc, Ev_dist_ext_mag_calc, Ev_flux_adj}"

text \<open>
  \<open>theta_example\<close> with the two radii exchanged, and \<open>theta_bb_example\<close> with an inclination
  of \<open>200\<close> degrees.
\<close>

definition theta_radii_swapped :: arr where
  "theta_radii_swapped = [Fin 0, Fin 0, Fin 10, Fin 20, Fin 90, Fin 80, Fin 0, Fin 51773.5]"

definition theta_bb_inc_200 :: arr where
  "theta_bb_inc_200 = theta_bb_example[8 := Fin 200]"

text \<open>
  The values that the traversal binds for \<open>theta_bb_example\<close> on the example fitter.
\<close>

definition params_bb_example :: theta_params where
  "params_bb_example =
     \<lparr> Kp_ext_p = Fin 0, H_ext_mod_p = Fin 0,
       star1_mass_p = Fin 10, star1_rad_p = Fin 10, star1_teff_p = Fin 8000,
       star2_mass_p = Fin 10, star2_rad_p = Fin 10, star2_teff_p = Fin 8000,
       binary_inc_p = Fin 90, binary_period_p = Fin 80, binary_rv_sys_p = Fin 0,
       binary_ecc_p = Fin 0, binary_dist_p = Fin 8000, t0_p = Fin 51773.5 \<rparr>"




section \<open>Properties\<close>

subsection \<open>Rules for runs\<close>

lemma bindR_callR: "bindR (callR ev x) f = (case f x of (r, tr) \<Rightarrow> (r, ev # tr))"
  by (simp add: bindR_def callR_def)

lemma bindR_liftR_Inr: "bindR (liftR (Inr x)) f = f x"
  by (simp add: bindR_def liftR_def split: prod.splits)

lemma bindR_liftR_Inl: "bindR (liftR (Inl e)) f = (Inl e, [])"
  by (simp add: bindR_def liftR_def)

lemma bindR_returnR: "bindR (returnR x) f = f x"
  by (simp add: bindR_def returnR_def split: prod.splits)

lemma bindR_Inr: "bindR (Inr x, tr) f = (case f x of (r, tr') \<Rightarrow> (r, tr @ tr'))"
  by (simp add: bindR_def)

lemma bindR_Inl: "bindR (Inl e, tr) f = (Inl e, tr)"
  by (simp add: bindR_def)

lemma bindE_Inr: "bindE (Inr x) f = f x"
  by (simp add: bindE_def)

lemma bindE_Inl: "bindE (Inl e) f = Inl e"
  by (simp add: bindE_def)

lemmas run_simps =
  bindR_callR bindR_liftR_Inr bindR_liftR_Inl bindR_returnR bindR_Inr bindR_Inl bindE_Inr bindE_Inl

text \<open>The events of a run stay within a set when those of its parts do.\<close>

lemma events_bindR:
  assumes "set (snd m) \<subseteq> S" and "\<And>x. set (snd (f x)) \<subseteq> S"
  shows "set (snd (bindR m f)) \<subseteq> S"
proof (cases m)
  case (Pair r tr)
  show ?thesis
  proof (cases r)
    case (Inl e)
    with Pair assms(1) show ?thesis by (simp add: bindR_def)
  next
    case (Inr x)
    obtain r' tr' where fx: "f x = (r', tr')" by (cases "f x")
    from assms(2) [of x] fx have "set tr' \<subseteq> S" by simp
    with Pair Inr assms(1) fx show ?thesis by (simp add: bindR_def)
  qed
qed

lemma events_callR: "ev \<in> S \<Longrightarrow> set (snd (callR ev x)) \<subseteq> S"
  by (simp add: callR_def)

lemma events_liftR: "set (snd (liftR r)) \<subseteq> S"
  by (simp add: liftR_def)

lemma events_returnR: "set (snd (returnR x)) \<subseteq> S"
  by (simp add: returnR_def)

lemma events_case_prod:
  "(\<And>a b. set (snd (f a b)) \<subseteq> S) \<Longrightarrow> set (snd (case_prod f p)) \<subseteq> S"
  by (cases p) simp

lemma events_case_prod_arg:
  "(\<And>a b. set (snd (f a b q)) \<subseteq> S) \<Longrightarrow> set (snd (case_prod f p q)) \<subseteq> S"
  by (cases p) simp

lemma events_if:
  "set (snd a) \<subseteq> S \<Longrightarrow> set (snd b) \<subseteq> S \<Longrightarrow> set (snd (if c then a else b)) \<subseteq> S"
  by simp

lemmas events_intros =
  events_bindR events_callR events_liftR events_returnR events_case_prod events_case_prod_arg
  events_if

lemma calculate_model_lc_events:
  "set (snd (calculate_model_lc self env theta)) \<subseteq> adapter_events"
  unfolding calculate_model_lc_def Let_def
  by (intro events_intros) (simp_all add: adapter_events_def)

lemma calculate_model_obs_events:
  "set (snd (calculate_model_obs self env theta)) \<subseteq> adapter_events"
  unfolding calculate_model_obs_def Let_def
  by (intro events_intros) (simp_all add: adapter_events_def)

subsection \<open>Evaluating the examples\<close>

lemma kp_filt_neq_h_filt: "kp_filt \<noteq> h_filt"
  by (simp add: kp_filt_def h_filt_def)

lemmas setup_defs =
  bb_example_def bb_unaligned_def bb_setup_def set_observation_filts_def
  set_observation_times_def set_observations_def make_bb_params_def where_eq_def
  bindE_Inr bindE_Inl take_inds_def Let_def np_unique_def cur_filt_ext_def bb_defaults_def
  kp_filt_neq_h_filt obs_matching_def obs_kp_nan_def obs_rv_nan_def

lemmas slot_defs =
  read_theta_def lnprior_slots_def calculate_model_obs_slots_def lnlike_slots_def
  always_slot_def toggled_slot_def theta_at_def theta_or_def theta_bb_example_def

lemmas prior_defs =
  lnprior_bb_def in_bound_def relational_def feq_def star_value_def

lemmas rad_example_defs =
  rad_interp_example_def rad_interp_defaults_def theta_example_def unpack_theta_def
  lc_calc_example_def lc_calc_failing_def

lemmas array_defs =
  either_sentinel_def is_sentinel_def feq_def fsub_def returnR_def chi_terms_def rv_terms_def
  elementwise_def np_sum_def fsq_def where_not_nan_def phase_fold_def fmod_def argsort_def
  vel_add_sys_def vel_resid_def dist_mod_mag_adj_calc_def

lemma rad_example_prior:
  "lnprior_rad_interp (rad_interp_example kp_mag) theta_example = Inr (Fin 0)"
  by (simp add: lnprior_rad_interp_def rad_example_defs in_bound_def fge_def)

lemma rad_example_model:
  "calculate_model_lc (rad_interp_example kp_mag) lc_calc_example theta_example =
     (Inr ([Fin 12], [Fin 13]),
      [Ev_calculate_model_lc, Ev_rad_interp, Ev_rad_interp, Ev_single_star_lc,
       Ev_single_star_lc, Ev_dist_ext_mag_calc, Ev_dist_ext_mag_calc, Ev_binary_star_lc,
       Ev_dist_ext_mag_calc, Ev_flux_adj])"
  by (simp add: calculate_model_lc_def rad_example_defs run_simps array_defs err_out_def)

lemma rad_example_like:
  "lnlike_rad_interp (rad_interp_example (Fin 12)) lc_calc_example theta_example =
     (Inr (Fin 0),
      [Ev_lnlike, Ev_calculate_model_lc, Ev_rad_interp, Ev_rad_interp, Ev_single_star_lc,
       Ev_single_star_lc, Ev_dist_ext_mag_calc, Ev_dist_ext_mag_calc, Ev_binary_star_lc,
       Ev_dist_ext_mag_calc, Ev_flux_adj, Ev_phased_obs, Ev_np_sum, Ev_np_sum])"
  by (simp add: lnlike_rad_interp_def rad_example_model run_simps)
     (simp add: rad_example_defs run_simps array_defs take_inds_def)

lemma rad_example_like_nan:
  "fst (lnlike_rad_interp (rad_interp_example NaN) lc_calc_example theta_example) = Inr NaN"
  by (simp add: lnlike_rad_interp_def rad_example_model run_simps)
     (simp add: rad_example_defs run_simps array_defs take_inds_def)

lemma bb_example_toggles:
  "\<not> model_distance (bb_example obs_matching)"
  "\<not> model_distance (bb_example obs_kp_nan)"
  by (simp_all add: setup_defs)

lemma theta_bb_example_length: "length theta_bb_example = 13"
  by (simp add: theta_bb_example_def)

lemma bb_example_prior:
  "lnprior_bb (bb_example obs_matching) theta_bb_example = Inr (Plain (Fin 0))"
  "lnprior_bb (bb_example obs_kp_nan) theta_bb_example = Inr (Plain (Fin 0))"
  by (simp_all add: setup_defs prior_defs slot_defs)

lemma bb_example_model:
  "calculate_model_obs (bb_example obs_matching) lc_calc_wRV_example theta_bb_example =
     (Inr ([Fin 12], [Fin 13], Kms [Fin 100, Fin 101], Kms [Fin (- 100), Fin (- 101)]),
      [Ev_calculate_model_obs, Ev_calc_stellar_params, Ev_calc_stellar_params,
       Ev_binary_star_lc, Ev_dist_ext_mag_calc])"
  "calculate_model_obs (bb_example obs_kp_nan) lc_calc_wRV_example theta_bb_example =
     (Inr ([Fin 12], [Fin 13], Kms [Fin 100, Fin 101], Kms [Fin (- 100), Fin (- 101)]),
      [Ev_calculate_model_obs, Ev_calc_stellar_params, Ev_calc_stellar_params,
       Ev_binary_star_lc, Ev_dist_ext_mag_calc])"
  by (simp_all add: setup_defs calculate_model_obs_def slot_defs run_simps filts_ext_at_def
        kp_filt_def h_filt_def lc_calc_wRV_example_def array_defs)

lemma bb_example_like:
  "lnlike_bb (bb_example obs_matching) lc_calc_wRV_example theta_bb_example =
     (Inr (Fin 0),
      [Ev_lnlike, Ev_calculate_model_obs, Ev_calc_stellar_params, Ev_calc_stellar_params,
       Ev_binary_star_lc, Ev_dist_ext_mag_calc, Ev_phased_obs,
       Ev_np_sum, Ev_np_sum, Ev_np_sum, Ev_np_sum])"
  by (simp add: lnlike_bb_def bb_example_model run_simps)
     (simp add: setup_defs slot_defs run_simps lc_calc_wRV_example_def array_defs)

lemma bb_example_like_nan:
  "lnlike_bb (bb_example obs_kp_nan) lc_calc_wRV_example theta_bb_example =
     (Inr NaN,
      [Ev_lnlike, Ev_calculate_model_obs, Ev_calc_stellar_params, Ev_calc_stellar_params,
       Ev_binary_star_lc, Ev_dist_ext_mag_calc, Ev_phased_obs,
       Ev_np_sum, Ev_np_sum, Ev_np_sum, Ev_np_sum])"
  by (simp add: lnlike_bb_def bb_example_model run_simps)
     (simp add: setup_defs slot_defs run_simps lc_calc_wRV_example_def array_defs)

subsection \<open>The posterior\<close>

lemma lnprob_rad_interp_gate:
  "lnprior_rad_interp self theta = Inr lp \<Longrightarrow> \<not> isfinite lp \<Longrightarrow>
     lnprob_rad_interp self env theta = (Inr NInf, [])"
  by (simp add: lnprob_rad_interp_def run_simps returnR_def)

lemma lnprob_rad_interp_sum:
  "lnprior_rad_interp self theta = Inr lp \<Longrightarrow> isfinite lp \<Longrightarrow>
   lnlike_rad_interp self env theta = (Inr ll, tr) \<Longrightarrow>
     lnprob_rad_interp self env theta = (Inr (fadd lp ll), tr)"
  by (simp add: lnprob_rad_interp_def run_simps returnR_def)

lemma lnprob_bb_gate:
  "lnprior_bb self theta = Inr lp \<Longrightarrow> \<not> isfinite (value_of lp) \<Longrightarrow>
     lnprob_bb self env theta = (Inr (Plain NInf), [])"
  by (simp add: lnprob_bb_def run_simps returnR_def)

lemma lnprob_bb_sum:
  "lnprior_bb self theta = Inr lp \<Longrightarrow> isfinite (value_of lp) \<Longrightarrow>
   lnlike_bb self env theta = (Inr ll, tr) \<Longrightarrow>
     lnprob_bb self env theta =
       (if isfinite ll then num_add lp (Plain ll) else Inr (Plain NInf), tr)"
  by (simp add: lnprob_bb_def run_simps returnR_def liftR_def)

text \<open>
  C1. In both fitters, when \<open>lnprior\<close> returns a value that is not finite, \<open>lnprob\<close> returns
  \<open>-inf\<close> and its log of events is empty: neither \<open>lnlike\<close> nor the forward model nor any
  collaborator was called. When \<open>lnprior\<close> and \<open>lnlike\<close> both return finite values, \<open>lnprob\<close>
  returns \<open>lp + ll\<close>. In the blackbody fitter, when \<open>lnprior\<close> is finite and \<open>lnlike\<close> returns
  a value that is not finite, \<open>lnprob\<close> returns \<open>-inf\<close>.
\<close>

theorem lnprob_prior_gate_then_sum:
  "(lnprior_rad_interp rself rtheta = Inr rlp \<and> \<not> isfinite rlp \<longrightarrow>
      lnprob_rad_interp rself renv rtheta = (Inr NInf, []))
   \<and> (lnprior_rad_interp rself rtheta = Inr rlp \<and> isfinite rlp
       \<and> lnlike_rad_interp rself renv rtheta = (Inr rll, rtr) \<and> isfinite rll \<longrightarrow>
      lnprob_rad_interp rself renv rtheta = (Inr (fadd rlp rll), rtr))
   \<and> (lnprior_bb bself btheta = Inr blp \<and> \<not> isfinite (value_of blp) \<longrightarrow>
      lnprob_bb bself benv btheta = (Inr (Plain NInf), []))
   \<and> (lnprior_bb bself btheta = Inr blp \<and> isfinite (value_of blp)
       \<and> lnlike_bb bself benv btheta = (Inr bll, btr) \<and> isfinite bll \<longrightarrow>
      lnprob_bb bself benv btheta = (num_add blp (Plain bll), btr))
   \<and> (lnprior_bb bself btheta = Inr blp \<and> isfinite (value_of blp)
       \<and> lnlike_bb bself benv btheta = (Inr bll, btr) \<and> \<not> isfinite bll \<longrightarrow>
      lnprob_bb bself benv btheta = (Inr (Plain NInf), btr))"
  by (simp add: lnprob_rad_interp_gate lnprob_rad_interp_sum lnprob_bb_gate lnprob_bb_sum)

lemma rad_example_prior_gate:
  "lnprior_rad_interp (rad_interp_example (Fin 12)) theta_radii_swapped = Inr NInf"
  by (simp add: lnprior_rad_interp_def rad_example_defs in_bound_def fge_def
        theta_radii_swapped_def)

lemma bb_example_prior_gate:
  "lnprior_bb (bb_example obs_matching) theta_bb_inc_200 = Inr (Plain NInf)"
  by (simp add: setup_defs prior_defs slot_defs theta_bb_inc_200_def)

theorem lnprob_prior_gate_then_sum_witness:
  "lnprob_rad_interp (rad_interp_example (Fin 12)) lc_calc_example theta_radii_swapped
       = (Inr NInf, [])
   \<and> fst (lnprob_rad_interp (rad_interp_example (Fin 12)) lc_calc_example theta_example)
       = Inr (Fin 0)
   \<and> lnprob_bb (bb_example obs_matching) lc_calc_wRV_example theta_bb_inc_200
       = (Inr (Plain NInf), [])
   \<and> fst (lnprob_bb (bb_example obs_matching) lc_calc_wRV_example theta_bb_example)
       = Inr (Plain (Fin 0))
   \<and> fst (lnprob_bb (bb_example obs_kp_nan) lc_calc_wRV_example theta_bb_example)
       = Inr (Plain NInf)"
proof -
  have a: "lnprob_rad_interp (rad_interp_example (Fin 12)) lc_calc_example theta_radii_swapped
       = (Inr NInf, [])"
    using lnprob_prior_gate_then_sum
      [where rself = "rad_interp_example (Fin 12)" and renv = lc_calc_example
         and rtheta = theta_radii_swapped and rlp = NInf]
    by (simp add: rad_example_prior_gate)
  have b: "fst (lnprob_rad_interp (rad_interp_example (Fin 12)) lc_calc_example theta_example)
       = Inr (Fin 0)"
    using lnprob_prior_gate_then_sum
      [where rself = "rad_interp_example (Fin 12)" and renv = lc_calc_example
         and rtheta = theta_example and rlp = "Fin 0" and rll = "Fin 0"]
    by (simp add: rad_example_prior rad_example_like)
  have c: "lnprob_bb (bb_example obs_matching) lc_calc_wRV_example theta_bb_inc_200
       = (Inr (Plain NInf), [])"
    using lnprob_prior_gate_then_sum
      [where bself = "bb_example obs_matching" and benv = lc_calc_wRV_example
         and btheta = theta_bb_inc_200 and blp = "Plain NInf"]
    by (simp add: bb_example_prior_gate)
  have d: "fst (lnprob_bb (bb_example obs_matching) lc_calc_wRV_example theta_bb_example)
       = Inr (Plain (Fin 0))"
    using lnprob_prior_gate_then_sum
      [where bself = "bb_example obs_matching" and benv = lc_calc_wRV_example
         and btheta = theta_bb_example and blp = "Plain (Fin 0)" and bll = "Fin 0"]
    by (simp add: bb_example_prior bb_example_like)
  have e: "fst (lnprob_bb (bb_example obs_kp_nan) lc_calc_wRV_example theta_bb_example)
       = Inr (Plain NInf)"
    using lnprob_prior_gate_then_sum
      [where bself = "bb_example obs_kp_nan" and benv = lc_calc_wRV_example
         and btheta = theta_bb_example and blp = "Plain (Fin 0)" and bll = NaN]
    by (simp add: bb_example_prior bb_example_like_nan)
  from a b c d e show ?thesis by blast
qed

text \<open>
  The blackbody fitter of the example (the distance not modelled, a \<open>theta\<close> of thirteen
  entries) with a Kp observation that is \<open>nan\<close>: the prior is \<open>0.0\<close>, the likelihood is
  \<open>nan\<close>, and \<open>lnprob\<close> returns \<open>-inf\<close>, which is not the sum of the two.
\<close>

theorem lnprob_bb_nan_likelihood_counterexample:
  "\<not> model_distance (bb_example obs_kp_nan)
   \<and> length theta_bb_example = 13
   \<and> lnprior_bb (bb_example obs_kp_nan) theta_bb_example = Inr (Plain (Fin 0))
   \<and> isfinite (value_of (Plain (Fin 0)))
   \<and> fst (lnlike_bb (bb_example obs_kp_nan) lc_calc_wRV_example theta_bb_example) = Inr NaN
   \<and> fst (lnprob_bb (bb_example obs_kp_nan) lc_calc_wRV_example theta_bb_example)
       = Inr (Plain NInf)
   \<and> fst (lnprob_bb (bb_example obs_kp_nan) lc_calc_wRV_example theta_bb_example)
       \<noteq> num_add (Plain (Fin 0)) (Plain NaN)"
  by (simp add: bb_example_prior bb_example_like_nan bb_example_toggles lnprob_bb_def run_simps
        returnR_def theta_bb_example_length)

text \<open>
  C6. The radius-interpolation fitter with a Kp observation that is \<open>nan\<close>: the prior is
  \<open>0.0\<close>, the likelihood is \<open>nan\<close>, and \<open>lnprob\<close> returns \<open>nan\<close>, not \<open>-inf\<close>. Its \<open>lnprob\<close> has
  no test of the likelihood, unlike the one of the blackbody fitter.
\<close>

theorem lnprob_rad_interp_nan_likelihood:
  "lnprior_rad_interp (rad_interp_example NaN) theta_example = Inr (Fin 0)
   \<and> fst (lnlike_rad_interp (rad_interp_example NaN) lc_calc_example theta_example) = Inr NaN
   \<and> fst (lnprob_rad_interp (rad_interp_example NaN) lc_calc_example theta_example) = Inr NaN
   \<and> fst (lnprob_rad_interp (rad_interp_example NaN) lc_calc_example theta_example) \<noteq> Inr NInf"
proof -
  obtain tr where l: "lnlike_rad_interp (rad_interp_example NaN) lc_calc_example theta_example
      = (Inr NaN, tr)"
    using rad_example_like_nan
    by (cases "lnlike_rad_interp (rad_interp_example NaN) lc_calc_example theta_example") simp
  from lnprob_rad_interp_sum [OF rad_example_prior _ l]
  show ?thesis by (simp add: rad_example_prior l)
qed

subsection \<open>The prior\<close>

lemma flt_not_fle: "flt a b \<Longrightarrow> \<not> fle b a"
  by (cases a; cases b) auto

text \<open>
  C4. In the radius-interpolation fitter, whenever \<open>theta\<close> unpacks (it has the length the
  fitter expects) and \<open>star1_rad < star2_rad\<close>, or either radius is not within
  \<open>[iso_rad_min, iso_rad_max]\<close>, \<open>lnprior\<close> returns \<open>-inf\<close>, whatever the other components
  and the configured bounds are.
\<close>

theorem lnprior_rad_interp_radius_gate:
  assumes "unpack_theta self theta =
             Inr (Kp_ext_t, H_ext_mod_t, star1_rad_t, star2_rad_t,
                  binary_inc_t, binary_period_t, binary_ecc_t, t0_t)"
    and "flt star1_rad_t star2_rad_t
         \<or> \<not> in_bound (iso_rad_min self) star1_rad_t (iso_rad_max self)
         \<or> \<not> in_bound (iso_rad_min self) star2_rad_t (iso_rad_max self)"
  shows "lnprior_rad_interp self theta = Inr NInf"
  using assms by (auto simp: lnprior_rad_interp_def fge_def dest: flt_not_fle)

theorem lnprior_rad_interp_radius_gate_witness:
  "unpack_theta rad_interp_defaults
       [Fin 3, Fin 0, Fin 10, Fin 20, Fin 90, Fin 80, Fin 0, Fin 51773.5] =
     Inr (Fin 3, Fin 0, Fin 10, Fin 20, Fin 90, Fin 80, Fin 0, Fin 51773.5)
   \<and> flt (Fin 10) (Fin 20)
   \<and> lnprior_rad_interp rad_interp_defaults
       [Fin 3, Fin 0, Fin 10, Fin 20, Fin 90, Fin 80, Fin 0, Fin 51773.5] = Inr NInf"
proof -
  have u: "unpack_theta rad_interp_defaults
       [Fin 3, Fin 0, Fin 10, Fin 20, Fin 90, Fin 80, Fin 0, Fin 51773.5] =
     Inr (Fin 3, Fin 0, Fin 10, Fin 20, Fin 90, Fin 80, Fin 0, Fin 51773.5)"
    by (simp add: unpack_theta_def rad_interp_defaults_def)
  have r: "flt (Fin 10) (Fin 20)" by simp
  from lnprior_rad_interp_radius_gate [OF u] r u show ?thesis by blast
qed

subsection \<open>The layout of \<open>theta\<close>\<close>

lemma toggled_slot_alt:
  "toggled_slot b i = (if b then Some i else None, i + of_bool b)"
  by (simp add: toggled_slot_def)

lemma opt_slot_list:
  "(case (if b then Some i else None) of None \<Rightarrow> [] | Some j \<Rightarrow> [j]) = (if b then [i] else [])"
  by simp

lemma len_if: "length (if b then [i] else []) = of_bool b"
  by simp

lemma lnprior_slots_count:
  "length (slots_read (lnprior_slots self)) =
     5 + of_bool (model_H_ext_mod self)
       + of_bool (model_star1_mass self) + of_bool (model_star1_rad self)
       + of_bool (model_star1_teff self)
       + of_bool (model_star2_mass self) + of_bool (model_star2_rad self)
       + of_bool (model_star2_teff self)
       + of_bool (model_eccentricity self) + of_bool (model_distance self)"
  by (simp add: lnprior_slots_def always_slot_def toggled_slot_alt slots_read_def Let_def
        opt_slot_list len_if del: of_bool_eq_iff split del: if_split cong: if_cong)

lemma lnprior_slots_last:
  "slot_t0 (lnprior_slots self) + 1 = length (slots_read (lnprior_slots self))"
  by (simp add: lnprior_slots_def always_slot_def toggled_slot_alt slots_read_def Let_def
        opt_slot_list len_if del: of_bool_eq_iff split del: if_split cong: if_cong)

text \<open>
  C8. For every setting of the toggles, the traversals of \<open>lnprior\<close>, \<open>calculate_model_obs\<close>
  and \<open>lnlike\<close> give every quantity the same slot, bind the same values for every \<open>theta\<close>
  (or raise the same exception), and read the same number of slots: five plus one for each
  toggle that is set.
\<close>

theorem theta_traversals_agree:
  "lnprior_slots self = calculate_model_obs_slots self
   \<and> calculate_model_obs_slots self = lnlike_slots self
   \<and> read_theta self (lnprior_slots self) theta
       = read_theta self (calculate_model_obs_slots self) theta
   \<and> read_theta self (calculate_model_obs_slots self) theta
       = read_theta self (lnlike_slots self) theta
   \<and> length (slots_read (lnprior_slots self))
       = length (slots_read (calculate_model_obs_slots self))
   \<and> length (slots_read (calculate_model_obs_slots self))
       = length (slots_read (lnlike_slots self))
   \<and> length (slots_read (lnlike_slots self)) =
       5 + of_bool (model_H_ext_mod self)
         + of_bool (model_star1_mass self) + of_bool (model_star1_rad self)
         + of_bool (model_star1_teff self)
         + of_bool (model_star2_mass self) + of_bool (model_star2_rad self)
         + of_bool (model_star2_teff self)
         + of_bool (model_eccentricity self) + of_bool (model_distance self)"
proof -
  have a: "lnprior_slots self = calculate_model_obs_slots self"
    unfolding lnprior_slots_def calculate_model_obs_slots_def by (rule refl)
  have b: "calculate_model_obs_slots self = lnlike_slots self"
    unfolding calculate_model_obs_slots_def lnlike_slots_def by (rule refl)
  from a b lnprior_slots_count [of self] show ?thesis by simp
qed

subsection \<open>The setters\<close>

lemma fill_filts_ext_set_dist:
  "fill_filts_ext (set_dist_prior_bounds self lo_bound hi_bound) Ks_ext_arg fl d =
     fill_filts_ext self Ks_ext_arg fl d"
  by (induction fl arbitrary: d) (simp_all add: cur_filt_ext_def set_dist_prior_bounds_def)

text \<open>
  C10. \<open>make_bb_params(Ks_ext, dist, filts_list)\<close> after \<open>set_dist_prior_bounds\<close> leaves the
  bounds \<open>0.8 * dist\<close> and \<open>1.2 * dist\<close> and the default distance \<open>dist\<close>; the fitter is the
  one obtained without the earlier call of \<open>set_dist_prior_bounds\<close>. Called after
  \<open>make_bb_params\<close>, \<open>set_dist_prior_bounds\<close> sets the bounds it is given.
\<close>

theorem make_bb_params_overwrites_dist_bounds:
  "lo_dist_prior_bound
       (make_bb_params (set_dist_prior_bounds self lo_bound hi_bound) Ks_ext_arg dist_arg fl)
     = fmul (Fin 0.8) dist_arg
   \<and> hi_dist_prior_bound
       (make_bb_params (set_dist_prior_bounds self lo_bound hi_bound) Ks_ext_arg dist_arg fl)
     = fmul (Fin 1.2) dist_arg
   \<and> default_dist
       (make_bb_params (set_dist_prior_bounds self lo_bound hi_bound) Ks_ext_arg dist_arg fl)
     = dist_arg
   \<and> make_bb_params (set_dist_prior_bounds self lo_bound hi_bound) Ks_ext_arg dist_arg fl
     = make_bb_params self Ks_ext_arg dist_arg fl
   \<and> lo_dist_prior_bound
       (set_dist_prior_bounds (make_bb_params self Ks_ext_arg dist_arg fl) lo_bound hi_bound)
     = lo_bound
   \<and> hi_dist_prior_bound
       (set_dist_prior_bounds (make_bb_params self Ks_ext_arg dist_arg fl) lo_bound hi_bound)
     = hi_bound"
  by (simp add: make_bb_params_def fill_filts_ext_set_dist) (simp add: set_dist_prior_bounds_def)

subsection \<open>The failure signal\<close>

lemma either_sentinel_signals:
  "signals_failure mags_Kp mags_H \<Longrightarrow> either_sentinel mags_Kp mags_H = Inr True"
  by (cases mags_Kp; cases mags_H)
     (auto simp: signals_failure_def either_sentinel_def is_sentinel_def feq_def
        split: bool.splits)

lemma calculate_model_lc_unpacks:
  assumes "calculate_model_lc self env theta = (Inr out, tr)"
  shows "\<exists>u. unpack_theta self theta = Inr u"
proof (cases "unpack_theta self theta")
  case (Inl e)
  with assms show ?thesis by (simp add: calculate_model_lc_def run_simps)
next
  case (Inr u)
  then show ?thesis by blast
qed

lemma calculate_model_obs_reads:
  assumes "calculate_model_obs self env theta = (Inr out, tr)"
  shows "\<exists>p. read_theta self (lnlike_slots self) theta = Inr p"
proof -
  have s: "lnlike_slots self = calculate_model_obs_slots self"
    unfolding calculate_model_obs_slots_def lnlike_slots_def by (rule refl)
  show ?thesis
  proof (cases "read_theta self (calculate_model_obs_slots self) theta")
    case (Inl e)
    with assms show ?thesis by (simp add: calculate_model_obs_def run_simps)
  next
    case (Inr p)
    with s show ?thesis by simp
  qed
qed

lemma adapter_events_no_sums:
  "set tr \<subseteq> adapter_events \<Longrightarrow>
     Ev_np_sum \<notin> set (Ev_lnlike # tr) \<and> Ev_phased_obs \<notin> set (Ev_lnlike # tr)"
  by (auto simp: adapter_events_def)

lemma lnlike_rad_interp_failure:
  assumes m: "calculate_model_lc self env theta = (Inr (mags_Kp, mags_H), tr)"
    and f: "signals_failure mags_Kp mags_H"
  shows "lnlike_rad_interp self env theta = (Inr NInf, Ev_lnlike # tr)"
proof -
  from calculate_model_lc_unpacks [OF m] obtain u where u: "unpack_theta self theta = Inr u"
    by blast
  show ?thesis
    by (simp add: lnlike_rad_interp_def u m either_sentinel_signals [OF f] run_simps returnR_def
          split: prod.splits)
qed

lemma lnlike_bb_failure:
  assumes m: "calculate_model_obs self env theta = (Inr (mags_Kp, mags_H, rvs_pri, rvs_sec), tr)"
    and f: "signals_failure mags_Kp mags_H"
  shows "lnlike_bb self env theta = (Inr NInf, Ev_lnlike # tr)"
proof -
  from calculate_model_obs_reads [OF m] obtain p
    where p: "read_theta self (lnlike_slots self) theta = Inr p"
    by blast
  show ?thesis
    by (simp add: lnlike_bb_def p m either_sentinel_signals [OF f] run_simps returnR_def)
qed

text \<open>
  C3. In both fitters, when the forward model returns arrays that signal failure (the first
  element of the Kp array is \<open>-1.0\<close>, or that of the H array is, as \<open>lnlike\<close> tests them),
  \<open>lnlike\<close> returns \<open>-inf\<close>, raises nothing, and logs nothing beyond its own call and what
  the forward model logged: no \<open>np.sum\<close> and no phase fold.
\<close>

theorem lnlike_failure_short_circuit:
  "(calculate_model_lc rself renv rtheta = (Inr (rmags_Kp, rmags_H), rtr)
      \<and> signals_failure rmags_Kp rmags_H \<longrightarrow>
        lnlike_rad_interp rself renv rtheta = (Inr NInf, Ev_lnlike # rtr)
        \<and> Ev_np_sum \<notin> set (Ev_lnlike # rtr) \<and> Ev_phased_obs \<notin> set (Ev_lnlike # rtr))
   \<and> (calculate_model_obs bself benv btheta = (Inr (bmags_Kp, bmags_H, brvs_pri, brvs_sec), btr)
      \<and> signals_failure bmags_Kp bmags_H \<longrightarrow>
        lnlike_bb bself benv btheta = (Inr NInf, Ev_lnlike # btr)
        \<and> Ev_np_sum \<notin> set (Ev_lnlike # btr) \<and> Ev_phased_obs \<notin> set (Ev_lnlike # btr))"
proof (intro conjI impI)
  assume a: "calculate_model_lc rself renv rtheta = (Inr (rmags_Kp, rmags_H), rtr)
      \<and> signals_failure rmags_Kp rmags_H"
  from a show "lnlike_rad_interp rself renv rtheta = (Inr NInf, Ev_lnlike # rtr)"
    by (simp add: lnlike_rad_interp_failure)
  from calculate_model_lc_events [of rself renv rtheta] a
  have "set rtr \<subseteq> adapter_events" by simp
  from adapter_events_no_sums [OF this]
  show "Ev_np_sum \<notin> set (Ev_lnlike # rtr)" and "Ev_phased_obs \<notin> set (Ev_lnlike # rtr)"
    by simp_all
next
  assume a: "calculate_model_obs bself benv btheta
        = (Inr (bmags_Kp, bmags_H, brvs_pri, brvs_sec), btr)
      \<and> signals_failure bmags_Kp bmags_H"
  from a show "lnlike_bb bself benv btheta = (Inr NInf, Ev_lnlike # btr)"
    by (simp add: lnlike_bb_failure)
  from calculate_model_obs_events [of bself benv btheta] a
  have "set btr \<subseteq> adapter_events" by simp
  from adapter_events_no_sums [OF this]
  show "Ev_np_sum \<notin> set (Ev_lnlike # btr)" and "Ev_phased_obs \<notin> set (Ev_lnlike # btr)"
    by simp_all
qed

lemma rad_failing_model:
  "calculate_model_lc (rad_interp_example (Fin 12)) (lc_calc_failing [] True) theta_example =
     (Inr ([Fin (- 1)], [Fin (- 1)]),
      [Ev_calculate_model_lc, Ev_rad_interp, Ev_rad_interp, Ev_single_star_lc,
       Ev_single_star_lc, Ev_dist_ext_mag_calc, Ev_dist_ext_mag_calc, Ev_binary_star_lc])"
  by (simp add: calculate_model_lc_def rad_example_defs run_simps array_defs err_out_def)

lemma bb_sentinel_model:
  "calculate_model_obs (bb_example obs_matching) (lc_calc_wRV_sentinel True None)
       theta_bb_example =
     (Inr ([Fin (- 1)], [Fin (- 1)], Unitless [Fin (- 1)], Unitless [Fin (- 1)]),
      [Ev_calculate_model_obs, Ev_calc_stellar_params, Ev_calc_stellar_params,
       Ev_binary_star_lc])"
  by (simp add: setup_defs calculate_model_obs_def slot_defs run_simps filts_ext_at_def
        kp_filt_def h_filt_def lc_calc_wRV_example_def lc_calc_wRV_sentinel_def array_defs
        err_out_obs_def)

theorem lnlike_failure_short_circuit_witness:
  "signals_failure [Fin (- 1)] [Fin (- 1)]
   \<and> lnlike_rad_interp (rad_interp_example (Fin 12)) (lc_calc_failing [] True) theta_example =
       (Inr NInf,
        [Ev_lnlike, Ev_calculate_model_lc, Ev_rad_interp, Ev_rad_interp, Ev_single_star_lc,
         Ev_single_star_lc, Ev_dist_ext_mag_calc, Ev_dist_ext_mag_calc, Ev_binary_star_lc])
   \<and> lnlike_bb (bb_example obs_matching) (lc_calc_wRV_sentinel True None) theta_bb_example =
       (Inr NInf,
        [Ev_lnlike, Ev_calculate_model_obs, Ev_calc_stellar_params, Ev_calc_stellar_params,
         Ev_binary_star_lc])"
proof -
  have s: "signals_failure [Fin (- 1)] [Fin (- 1)]"
    by (simp add: signals_failure_def)
  have a: "lnlike_rad_interp (rad_interp_example (Fin 12)) (lc_calc_failing [] True)
       theta_example =
       (Inr NInf,
        [Ev_lnlike, Ev_calculate_model_lc, Ev_rad_interp, Ev_rad_interp, Ev_single_star_lc,
         Ev_single_star_lc, Ev_dist_ext_mag_calc, Ev_dist_ext_mag_calc, Ev_binary_star_lc])"
    using lnlike_failure_short_circuit
      [where rself = "rad_interp_example (Fin 12)" and renv = "lc_calc_failing [] True"
         and rtheta = theta_example and rmags_Kp = "[Fin (- 1)]" and rmags_H = "[Fin (- 1)]"]
    by (simp add: rad_failing_model s)
  have b: "lnlike_bb (bb_example obs_matching) (lc_calc_wRV_sentinel True None)
       theta_bb_example =
       (Inr NInf,
        [Ev_lnlike, Ev_calculate_model_obs, Ev_calc_stellar_params, Ev_calc_stellar_params,
         Ev_binary_star_lc])"
    using lnlike_failure_short_circuit
      [where bself = "bb_example obs_matching" and benv = "lc_calc_wRV_sentinel True None"
         and btheta = theta_bb_example and bmags_Kp = "[Fin (- 1)]" and bmags_H = "[Fin (- 1)]"]
    by (simp add: bb_sentinel_model s)
  from s a b show ?thesis by blast
qed

subsection \<open>The forward-model adapters\<close>

lemma calculate_model_lc_star1_failure:
  assumes u: "unpack_theta self theta =
      Inr (Kp_ext_t, H_ext_mod_t, star1_rad_t, star2_rad_t,
           binary_inc_t, binary_period_t, binary_ecc_t, t0_t)"
    and s1: "single_star_lc env (snd (rad_interp env star1_rad_t))
               (use_blackbody_atm self) (model_numTriangles self) = (s1_Kp, s1_H)"
    and f: "signals_failure s1_Kp s1_H"
  shows "calculate_model_lc self env theta =
           (Inr err_out,
            [Ev_calculate_model_lc, Ev_rad_interp, Ev_rad_interp, Ev_single_star_lc])"
  by (simp add: calculate_model_lc_def u s1 either_sentinel_signals [OF f] run_simps
        returnR_def case_prod_unfold)

lemma calculate_model_lc_star2_failure:
  assumes u: "unpack_theta self theta =
      Inr (Kp_ext_t, H_ext_mod_t, star1_rad_t, star2_rad_t,
           binary_inc_t, binary_period_t, binary_ecc_t, t0_t)"
    and s1: "single_star_lc env (snd (rad_interp env star1_rad_t))
               (use_blackbody_atm self) (model_numTriangles self) = (s1_Kp, s1_H)"
    and n1: "either_sentinel s1_Kp s1_H = Inr False"
    and s2: "single_star_lc env (snd (rad_interp env star2_rad_t))
               (use_blackbody_atm self) (model_numTriangles self) = (s2_Kp, s2_H)"
    and f: "signals_failure s2_Kp s2_H"
  shows "calculate_model_lc self env theta =
           (Inr err_out,
            [Ev_calculate_model_lc, Ev_rad_interp, Ev_rad_interp, Ev_single_star_lc,
             Ev_single_star_lc])"
  by (simp add: calculate_model_lc_def u s1 n1 s2 either_sentinel_signals [OF f] run_simps
        returnR_def case_prod_unfold)

lemma calculate_model_lc_binary_failure:
  assumes u: "unpack_theta self theta =
      Inr (Kp_ext_t, H_ext_mod_t, star1_rad_t, star2_rad_t,
           binary_inc_t, binary_period_t, binary_ecc_t, t0_t)"
    and s1: "single_star_lc env (snd (rad_interp env star1_rad_t))
               (use_blackbody_atm self) (model_numTriangles self) = (s1_Kp, s1_H)"
    and n1: "either_sentinel s1_Kp s1_H = Inr False"
    and s2: "single_star_lc env (snd (rad_interp env star2_rad_t))
               (use_blackbody_atm self) (model_numTriangles self) = (s2_Kp, s2_H)"
    and n2: "either_sentinel s2_Kp s2_H = Inr False"
    and b: "binary_star_lc env (snd (rad_interp env star1_rad_t))
              (snd (rad_interp env star2_rad_t))
              (binary_period_t, binary_ecc_t, binary_inc_t, t0_t)
              (Kp_observation_times self, H_observation_times self)
              (use_blackbody_atm self) (model_numTriangles self) = (b_Kp, b_H)"
    and f: "signals_failure b_Kp b_H"
  shows "calculate_model_lc self env theta =
           (Inr err_out,
            [Ev_calculate_model_lc, Ev_rad_interp, Ev_rad_interp, Ev_single_star_lc,
             Ev_single_star_lc, Ev_dist_ext_mag_calc, Ev_dist_ext_mag_calc,
             Ev_binary_star_lc])"
  by (simp add: calculate_model_lc_def u s1 n1 s2 n2 b either_sentinel_signals [OF f] run_simps
        returnR_def case_prod_unfold)

lemma calculate_model_obs_binary_failure:
  assumes p: "read_theta self (calculate_model_obs_slots self) theta = Inr p"
    and k: "filts_ext_at self kp_filt = Inr kp_filt_ext"
    and h: "filts_ext_at self h_filt = Inr h_filt_ext"
    and d: "\<not> model_distance self"
    and b: "binary_star_lc_wRV env
              (snd (calc_stellar_params env (star1_mass_p p) (star1_rad_p p) (star1_teff_p p)))
              (snd (calc_stellar_params env (star2_mass_p p) (star2_rad_p p) (star2_teff_p p)))
              (binary_period_p p, binary_ecc_p p, binary_inc_p p, t0_p p)
              (observation_times self) (use_blackbody_atm self) (model_compact self)
              (irrad_frac_refl self) (model_numTriangles self) = ((b_Kp, b_H), rvs_pri, rvs_sec)"
    and f: "signals_failure b_Kp b_H"
  shows "calculate_model_obs self env theta =
           (Inr err_out_obs,
            [Ev_calculate_model_obs, Ev_calc_stellar_params, Ev_calc_stellar_params,
             Ev_binary_star_lc])"
  by (simp add: calculate_model_obs_def p k h d b either_sentinel_signals [OF f] run_simps
        returnR_def case_prod_unfold dist_mod_mag_adj_calc_def)

text \<open>
  C7. After each call of the single-star model and of the binary model, the adapter tests
  the Kp and H arrays returned (as \<open>signals_failure\<close> says) and, when the test fires,
  returns \<open>err_out\<close> at once: the log ends with that call, so no later collaborator is
  called and no correction is applied. In the radius-interpolation fitter this holds for
  star 1, for star 2 when star 1 did not fail, and for the binary when neither star failed;
  in the blackbody fitter for the binary model, when the distance is not modelled and the
  extinctions of Kp and H are in \<open>filts_ext\<close>. The radial-velocity arrays are not tested.
\<close>

theorem adapter_failure_returns_err_out:
  "(unpack_theta rself rtheta =
        Inr (Kp_ext_t, H_ext_mod_t, star1_rad_t, star2_rad_t,
             binary_inc_t, binary_period_t, binary_ecc_t, t0_t)
      \<and> single_star_lc renv (snd (rad_interp renv star1_rad_t))
            (use_blackbody_atm rself) (model_numTriangles rself) = (s1_Kp, s1_H)
      \<and> signals_failure s1_Kp s1_H \<longrightarrow>
        calculate_model_lc rself renv rtheta =
          (Inr err_out,
           [Ev_calculate_model_lc, Ev_rad_interp, Ev_rad_interp, Ev_single_star_lc]))
   \<and> (unpack_theta rself rtheta =
        Inr (Kp_ext_t, H_ext_mod_t, star1_rad_t, star2_rad_t,
             binary_inc_t, binary_period_t, binary_ecc_t, t0_t)
      \<and> single_star_lc renv (snd (rad_interp renv star1_rad_t))
            (use_blackbody_atm rself) (model_numTriangles rself) = (s1_Kp, s1_H)
      \<and> either_sentinel s1_Kp s1_H = Inr False
      \<and> single_star_lc renv (snd (rad_interp renv star2_rad_t))
            (use_blackbody_atm rself) (model_numTriangles rself) = (s2_Kp, s2_H)
      \<and> signals_failure s2_Kp s2_H \<longrightarrow>
        calculate_model_lc rself renv rtheta =
          (Inr err_out,
           [Ev_calculate_model_lc, Ev_rad_interp, Ev_rad_interp, Ev_single_star_lc,
            Ev_single_star_lc]))
   \<and> (unpack_theta rself rtheta =
        Inr (Kp_ext_t, H_ext_mod_t, star1_rad_t, star2_rad_t,
             binary_inc_t, binary_period_t, binary_ecc_t, t0_t)
      \<and> single_star_lc renv (snd (rad_interp renv star1_rad_t))
            (use_blackbody_atm rself) (model_numTriangles rself) = (s1_Kp, s1_H)
      \<and> either_sentinel s1_Kp s1_H = Inr False
      \<and> single_star_lc renv (snd (rad_interp renv star2_rad_t))
            (use_blackbody_atm rself) (model_numTriangles rself) = (s2_Kp, s2_H)
      \<and> either_sentinel s2_Kp s2_H = Inr False
      \<and> binary_star_lc renv (snd (rad_interp renv star1_rad_t))
            (snd (rad_interp renv star2_rad_t))
            (binary_period_t, binary_ecc_t, binary_inc_t, t0_t)
            (Kp_observation_times rself, H_observation_times rself)
            (use_blackbody_atm rself) (model_numTriangles rself) = (b_Kp, b_H)
      \<and> signals_failure b_Kp b_H \<longrightarrow>
        calculate_model_lc rself renv rtheta =
          (Inr err_out,
           [Ev_calculate_model_lc, Ev_rad_interp, Ev_rad_interp, Ev_single_star_lc,
            Ev_single_star_lc, Ev_dist_ext_mag_calc, Ev_dist_ext_mag_calc,
            Ev_binary_star_lc]))
   \<and> (read_theta bself (calculate_model_obs_slots bself) btheta = Inr p
      \<and> filts_ext_at bself kp_filt = Inr kp_filt_ext
      \<and> filts_ext_at bself h_filt = Inr h_filt_ext
      \<and> \<not> model_distance bself
      \<and> binary_star_lc_wRV benv
            (snd (calc_stellar_params benv (star1_mass_p p) (star1_rad_p p) (star1_teff_p p)))
            (snd (calc_stellar_params benv (star2_mass_p p) (star2_rad_p p) (star2_teff_p p)))
            (binary_period_p p, binary_ecc_p p, binary_inc_p p, t0_p p)
            (observation_times bself) (use_blackbody_atm bself) (model_compact bself)
            (irrad_frac_refl bself) (model_numTriangles bself) = ((w_Kp, w_H), rvs_pri, rvs_sec)
      \<and> signals_failure w_Kp w_H \<longrightarrow>
        calculate_model_obs bself benv btheta =
          (Inr err_out_obs,
           [Ev_calculate_model_obs, Ev_calc_stellar_params, Ev_calc_stellar_params,
            Ev_binary_star_lc]))"
proof (intro conjI impI)
  assume "unpack_theta rself rtheta =
        Inr (Kp_ext_t, H_ext_mod_t, star1_rad_t, star2_rad_t,
             binary_inc_t, binary_period_t, binary_ecc_t, t0_t)
      \<and> single_star_lc renv (snd (rad_interp renv star1_rad_t))
            (use_blackbody_atm rself) (model_numTriangles rself) = (s1_Kp, s1_H)
      \<and> signals_failure s1_Kp s1_H"
  then show "calculate_model_lc rself renv rtheta =
          (Inr err_out,
           [Ev_calculate_model_lc, Ev_rad_interp, Ev_rad_interp, Ev_single_star_lc])"
    by (blast intro: calculate_model_lc_star1_failure)
next
  assume "unpack_theta rself rtheta =
        Inr (Kp_ext_t, H_ext_mod_t, star1_rad_t, star2_rad_t,
             binary_inc_t, binary_period_t, binary_ecc_t, t0_t)
      \<and> single_star_lc renv (snd (rad_interp renv star1_rad_t))
            (use_blackbody_atm rself) (model_numTriangles rself) = (s1_Kp, s1_H)
      \<and> either_sentinel s1_Kp s1_H = Inr False
      \<and> single_star_lc renv (snd (rad_interp renv star2_rad_t))
            (use_blackbody_atm rself) (model_numTriangles rself) = (s2_Kp, s2_H)
      \<and> signals_failure s2_Kp s2_H"
  then show "calculate_model_lc rself renv rtheta =
          (Inr err_out,
           [Ev_calculate_model_lc, Ev_rad_interp, Ev_rad_interp, Ev_single_star_lc,
            Ev_single_star_lc])"
    by (blast intro: calculate_model_lc_star2_failure)
next
  assume "unpack_theta rself rtheta =
        Inr (Kp_ext_t, H_ext_mod_t, star1_rad_t, star2_rad_t,
             binary_inc_t, binary_period_t, binary_ecc_t, t0_t)
      \<and> single_star_lc renv (snd (rad_interp renv star1_rad_t))
            (use_blackbody_atm rself) (model_numTriangles rself) = (s1_Kp, s1_H)
      \<and> either_sentinel s1_Kp s1_H = Inr False
      \<and> single_star_lc renv (snd (rad_interp renv star2_rad_t))
            (use_blackbody_atm rself) (model_numTriangles rself) = (s2_Kp, s2_H)
      \<and> either_sentinel s2_Kp s2_H = Inr False
      \<and> binary_star_lc renv (snd (rad_interp renv star1_rad_t))
            (snd (rad_interp renv star2_rad_t))
            (binary_period_t, binary_ecc_t, binary_inc_t, t0_t)
            (Kp_observation_times rself, H_observation_times rself)
            (use_blackbody_atm rself) (model_numTriangles rself) = (b_Kp, b_H)
      \<and> signals_failure b_Kp b_H"
  then show "calculate_model_lc rself renv rtheta =
          (Inr err_out,
           [Ev_calculate_model_lc, Ev_rad_interp, Ev_rad_interp, Ev_single_star_lc,
            Ev_single_star_lc, Ev_dist_ext_mag_calc, Ev_dist_ext_mag_calc,
            Ev_binary_star_lc])"
    by (blast intro: calculate_model_lc_binary_failure)
next
  assume "read_theta bself (calculate_model_obs_slots bself) btheta = Inr p
      \<and> filts_ext_at bself kp_filt = Inr kp_filt_ext
      \<and> filts_ext_at bself h_filt = Inr h_filt_ext
      \<and> \<not> model_distance bself
      \<and> binary_star_lc_wRV benv
            (snd (calc_stellar_params benv (star1_mass_p p) (star1_rad_p p) (star1_teff_p p)))
            (snd (calc_stellar_params benv (star2_mass_p p) (star2_rad_p p) (star2_teff_p p)))
            (binary_period_p p, binary_ecc_p p, binary_inc_p p, t0_p p)
            (observation_times bself) (use_blackbody_atm bself) (model_compact bself)
            (irrad_frac_refl bself) (model_numTriangles bself) = ((w_Kp, w_H), rvs_pri, rvs_sec)
      \<and> signals_failure w_Kp w_H"
  then show "calculate_model_obs bself benv btheta =
          (Inr err_out_obs,
           [Ev_calculate_model_obs, Ev_calc_stellar_params, Ev_calc_stellar_params,
            Ev_binary_star_lc])"
    by (blast intro: calculate_model_obs_binary_failure)
qed


lemma bb_example_read:
  "read_theta (bb_example obs_matching) (calculate_model_obs_slots (bb_example obs_matching))
     theta_bb_example = Inr params_bb_example"
  by (simp add: setup_defs slot_defs params_bb_example_def)

lemma bb_example_filts_ext:
  "filts_ext_at (bb_example obs_matching) kp_filt = Inr (Fin 0)"
  "filts_ext_at (bb_example obs_matching) h_filt = Inr (Fin 0)"
  by (simp_all add: setup_defs filts_ext_at_def kp_filt_def h_filt_def)

theorem adapter_failure_returns_err_out_witness:
  "calculate_model_lc (rad_interp_example (Fin 12)) (lc_calc_failing [[Fin 20]] False)
       theta_example =
     (Inr err_out, [Ev_calculate_model_lc, Ev_rad_interp, Ev_rad_interp, Ev_single_star_lc])
   \<and> calculate_model_lc (rad_interp_example (Fin 12)) (lc_calc_failing [[Fin 10]] False)
       theta_example =
     (Inr err_out,
      [Ev_calculate_model_lc, Ev_rad_interp, Ev_rad_interp, Ev_single_star_lc,
       Ev_single_star_lc])
   \<and> calculate_model_lc (rad_interp_example (Fin 12)) (lc_calc_failing [] True)
       theta_example =
     (Inr err_out,
      [Ev_calculate_model_lc, Ev_rad_interp, Ev_rad_interp, Ev_single_star_lc,
       Ev_single_star_lc, Ev_dist_ext_mag_calc, Ev_dist_ext_mag_calc, Ev_binary_star_lc])
   \<and> calculate_model_obs (bb_example obs_matching) (lc_calc_wRV_sentinel True None)
       theta_bb_example =
     (Inr err_out_obs,
      [Ev_calculate_model_obs, Ev_calc_stellar_params, Ev_calc_stellar_params,
       Ev_binary_star_lc])"
proof -
  have a: "calculate_model_lc (rad_interp_example (Fin 12)) (lc_calc_failing [[Fin 20]] False)
       theta_example =
     (Inr err_out, [Ev_calculate_model_lc, Ev_rad_interp, Ev_rad_interp, Ev_single_star_lc])"
    using adapter_failure_returns_err_out
      [where rself = "rad_interp_example (Fin 12)" and renv = "lc_calc_failing [[Fin 20]] False"
         and rtheta = theta_example and Kp_ext_t = "Fin 0" and H_ext_mod_t = "Fin 0"
         and star1_rad_t = "Fin 20" and star2_rad_t = "Fin 10" and binary_inc_t = "Fin 90"
         and binary_period_t = "Fin 80" and binary_ecc_t = "Fin 0" and t0_t = "Fin 51773.5"
         and s1_Kp = "[Fin (- 1)]" and s1_H = "[Fin (- 1)]"]
    by (simp add: rad_example_defs signals_failure_def err_out_def)
  have b: "calculate_model_lc (rad_interp_example (Fin 12)) (lc_calc_failing [[Fin 10]] False)
       theta_example =
     (Inr err_out,
      [Ev_calculate_model_lc, Ev_rad_interp, Ev_rad_interp, Ev_single_star_lc,
       Ev_single_star_lc])"
    using adapter_failure_returns_err_out
      [where rself = "rad_interp_example (Fin 12)" and renv = "lc_calc_failing [[Fin 10]] False"
         and rtheta = theta_example and Kp_ext_t = "Fin 0" and H_ext_mod_t = "Fin 0"
         and star1_rad_t = "Fin 20" and star2_rad_t = "Fin 10" and binary_inc_t = "Fin 90"
         and binary_period_t = "Fin 80" and binary_ecc_t = "Fin 0" and t0_t = "Fin 51773.5"
         and s1_Kp = "[Fin 10]" and s1_H = "[Fin 11]"
         and s2_Kp = "[Fin (- 1)]" and s2_H = "[Fin (- 1)]"]
    by (simp add: rad_example_defs signals_failure_def err_out_def either_sentinel_def
          is_sentinel_def feq_def)
  have c: "calculate_model_lc (rad_interp_example (Fin 12)) (lc_calc_failing [] True)
       theta_example =
     (Inr err_out,
      [Ev_calculate_model_lc, Ev_rad_interp, Ev_rad_interp, Ev_single_star_lc,
       Ev_single_star_lc, Ev_dist_ext_mag_calc, Ev_dist_ext_mag_calc, Ev_binary_star_lc])"
    using adapter_failure_returns_err_out
      [where rself = "rad_interp_example (Fin 12)" and renv = "lc_calc_failing [] True"
         and rtheta = theta_example and Kp_ext_t = "Fin 0" and H_ext_mod_t = "Fin 0"
         and star1_rad_t = "Fin 20" and star2_rad_t = "Fin 10" and binary_inc_t = "Fin 90"
         and binary_period_t = "Fin 80" and binary_ecc_t = "Fin 0" and t0_t = "Fin 51773.5"
         and s1_Kp = "[Fin 10]" and s1_H = "[Fin 11]"
         and s2_Kp = "[Fin 10]" and s2_H = "[Fin 11]"
         and b_Kp = "[Fin (- 1)]" and b_H = "[Fin (- 1)]"]
    by (simp add: rad_example_defs signals_failure_def err_out_def either_sentinel_def
          is_sentinel_def feq_def)
  have d: "calculate_model_obs (bb_example obs_matching) (lc_calc_wRV_sentinel True None)
       theta_bb_example =
     (Inr err_out_obs,
      [Ev_calculate_model_obs, Ev_calc_stellar_params, Ev_calc_stellar_params,
       Ev_binary_star_lc])"
    using adapter_failure_returns_err_out
      [where bself = "bb_example obs_matching" and benv = "lc_calc_wRV_sentinel True None"
         and btheta = theta_bb_example and p = params_bb_example
         and kp_filt_ext = "Fin 0" and h_filt_ext = "Fin 0"
         and w_Kp = "[Fin (- 1)]" and w_H = "[Fin (- 1)]"
         and rvs_pri = "Kms [Fin 100, Fin 101]" and rvs_sec = "Kms [Fin (- 100), Fin (- 101)]"]
    by (simp add: bb_example_read bb_example_filts_ext bb_example_toggles signals_failure_def)
       (simp add: setup_defs lc_calc_wRV_sentinel_def lc_calc_wRV_example_def fsub_def)
  from a b c d show ?thesis by blast
qed

text \<open>
  The blackbody fitter of the example with a binary model whose magnitudes are sound and
  whose two radial-velocity arrays, in \<open>km/s\<close>, begin with \<open>-1.0\<close>: \<open>calculate_model_obs\<close>
  goes on to the distance and extinction correction and returns the magnitudes and the
  velocities, not \<open>err_out\<close>.
\<close>

theorem calculate_model_obs_rv_sentinel_counterexample:
  "first (vel_values (Kms [Fin (- 1), Fin (- 1)])) = Inr (Fin (- 1))
   \<and> calculate_model_obs (bb_example obs_matching)
         (lc_calc_wRV_sentinel False (Some (Kms [Fin (- 1), Fin (- 1)]))) theta_bb_example =
       (Inr ([Fin 12], [Fin 13], Kms [Fin (- 1), Fin (- 1)], Kms [Fin (- 1), Fin (- 1)]),
        [Ev_calculate_model_obs, Ev_calc_stellar_params, Ev_calc_stellar_params,
         Ev_binary_star_lc, Ev_dist_ext_mag_calc])
   \<and> fst (calculate_model_obs (bb_example obs_matching)
         (lc_calc_wRV_sentinel False (Some (Kms [Fin (- 1), Fin (- 1)]))) theta_bb_example)
       \<noteq> Inr err_out_obs"
  by (simp add: setup_defs calculate_model_obs_def slot_defs run_simps filts_ext_at_def
        kp_filt_def h_filt_def lc_calc_wRV_example_def lc_calc_wRV_sentinel_def array_defs
        err_out_obs_def)

subsection \<open>The chi-square sums\<close>


























subsection \<open>The pairing of the radial velocities\<close>







lemma bb_unaligned_read:
  "read_theta bb_unaligned (lnlike_slots bb_unaligned) theta_bb_example = Inr params_bb_example"
  by (simp add: setup_defs slot_defs params_bb_example_def)









end
